theory Spec2Isabelle
  imports Main "HOL-Library.Sublist"
begin

section \<open>The host's source-code object\<close>

text \<open>
  The rules of eslint-plugin-whitespaced read a parsed file through ESLint's
  \<^verbatim>\<open>SourceCode\<close> object.  Nodes, tokens and comments all carry a \<^verbatim>\<open>type\<close>, a
  \<^verbatim>\<open>range\<close> (a half-open pair of offsets into the text) and a \<^verbatim>\<open>loc\<close> (1-based lines,
  0-based columns).  Source text is a list of characters; offsets index into it.
  Lines and columns are integers because the rules subtract them.
\<close>

record position =
  line :: int
  column :: int

record location =
  loc_start :: position
  loc_end :: position

record node =
  ntype :: string
  nrange :: "nat \<times> nat"
  loc :: location

record token = node +
  tvalue :: string

record sourceCode =
  sc_text :: string
  tokensAndComments :: "token list"
  ast :: "node list"

text \<open>JavaScript exceptions that the modelled code can raise.\<close>

datatype error = TypeError | RangeError

abbreviation NL :: char where
  "NL \<equiv> CHR 0x0A"

definition isCommentToken :: "token \<Rightarrow> bool" where
  "isCommentToken t =
     (ntype t = ''Line'' \<or> ntype t = ''Block'' \<or> ntype t = ''Shebang'')"

text \<open>
  \<^verbatim>\<open>tokensAndComments\<close> is the token stream in source order, comments included;
  a query without \<^verbatim>\<open>includeComments\<close> sees only the tokens that are not comments.
\<close>

definition tokensOf :: "sourceCode \<Rightarrow> bool \<Rightarrow> token list" where
  "tokensOf sc includeComments =
     (if includeComments then tokensAndComments sc
      else filter (\<lambda>t. \<not> isCommentToken t) (tokensAndComments sc))"

fun lastOption :: "'a list \<Rightarrow> 'a option" where
  "lastOption [] = None"
| "lastOption (x # xs) = (case lastOption xs of None \<Rightarrow> Some x | Some y \<Rightarrow> Some y)"

text \<open>
  \<^verbatim>\<open>getTokenBefore(node, {includeComments, filter})\<close>: the nearest token that ends at or
  before the node's start and passes the filter; \<^verbatim>\<open>null\<close> (here \<open>None\<close>) when there is none.
  \<^verbatim>\<open>getTokenAfter\<close> is its mirror image.
\<close>

definition getTokenBefore ::
  "sourceCode \<Rightarrow> 'a node_scheme \<Rightarrow> bool \<Rightarrow> (token \<Rightarrow> bool) \<Rightarrow> token option" where
  "getTokenBefore sc n includeComments flt =
     lastOption (filter (\<lambda>t. snd (nrange t) \<le> fst (nrange n) \<and> flt t)
                        (tokensOf sc includeComments))"

definition getTokenAfter ::
  "sourceCode \<Rightarrow> 'a node_scheme \<Rightarrow> bool \<Rightarrow> (token \<Rightarrow> bool) \<Rightarrow> token option" where
  "getTokenAfter sc n includeComments flt =
     List.find (\<lambda>t. snd (nrange n) \<le> fst (nrange t) \<and> flt t)
               (tokensOf sc includeComments)"

definition anyToken :: "token \<Rightarrow> bool" where
  "anyToken t = True"

text \<open>\<^verbatim>\<open>getFirstToken(node)\<close> and \<^verbatim>\<open>getLastToken(node)\<close>: the first and last
  non-comment token lying inside the node's range.\<close>

definition tokenInside :: "'a node_scheme \<Rightarrow> token \<Rightarrow> bool" where
  "tokenInside n t = (fst (nrange n) \<le> fst (nrange t) \<and> snd (nrange t) \<le> snd (nrange n))"

definition getFirstToken :: "sourceCode \<Rightarrow> 'a node_scheme \<Rightarrow> token option" where
  "getFirstToken sc n = List.find (tokenInside n) (tokensOf sc False)"

definition getLastToken :: "sourceCode \<Rightarrow> 'a node_scheme \<Rightarrow> token option" where
  "getLastToken sc n = lastOption (filter (tokenInside n) (tokensOf sc False))"

text \<open>
  \<^verbatim>\<open>getNodeByRangeIndex(index)\<close>: the deepest node of the tree whose range contains the
  offset.  \<^verbatim>\<open>ast\<close> lists the nodes in traversal (pre-)order, so that an ancestor precedes
  its descendants and the deepest containing node is the last one that contains the offset.
\<close>

definition getNodeByRangeIndex :: "sourceCode \<Rightarrow> nat \<Rightarrow> node option" where
  "getNodeByRangeIndex sc i =
     lastOption (filter (\<lambda>n. fst (nrange n) \<le> i \<and> i < snd (nrange n)) (ast sc))"

text \<open>\<^verbatim>\<open>sourceCode.getText(node)\<close> is the slice of the text at the node's range.\<close>

definition slice :: "string \<Rightarrow> nat \<Rightarrow> nat \<Rightarrow> string" where
  "slice s i j = take (j - i) (drop i s)"

definition getText :: "sourceCode \<Rightarrow> 'a node_scheme \<Rightarrow> string" where
  "getText sc n = slice (sc_text sc) (fst (nrange n)) (snd (nrange n))"

subsection \<open>Fixes and diagnostics\<close>

text \<open>
  A fix is one range replacement.  \<^verbatim>\<open>replaceTextRange(range, text)\<close> builds it directly;
  \<^verbatim>\<open>replaceText(node, text)\<close> uses the node's range, \<^verbatim>\<open>insertTextAfter(node, text)\<close> the
  empty range at the node's end, and \<^verbatim>\<open>removeRange(range)\<close> the empty replacement.
  Applying a fix keeps the text before and after the range.
\<close>

record text_fix =
  fix_range :: "nat \<times> nat"
  fix_text :: string

definition replaceTextRange :: "nat \<times> nat \<Rightarrow> string \<Rightarrow> text_fix" where
  "replaceTextRange r s = \<lparr>fix_range = r, fix_text = s\<rparr>"

definition replaceText :: "'a node_scheme \<Rightarrow> string \<Rightarrow> text_fix" where
  "replaceText n s = replaceTextRange (nrange n) s"

definition insertTextAfter :: "'a node_scheme \<Rightarrow> string \<Rightarrow> text_fix" where
  "insertTextAfter n s = replaceTextRange (snd (nrange n), snd (nrange n)) s"

definition removeRange :: "nat \<times> nat \<Rightarrow> text_fix" where
  "removeRange r = replaceTextRange r []"

definition applyFix :: "string \<Rightarrow> text_fix \<Rightarrow> string" where
  "applyFix s f = take (fst (fix_range f)) s @ fix_text f @ drop (snd (fix_range f)) s"

text \<open>
  Interpolation data of a diagnostic is a number or a string.  The fix of a diagnostic
  is computed by a callback: \<open>None\<close> when the diagnostic carries no callback or the
  callback returns \<^verbatim>\<open>null\<close>, \<open>Some (Inl e)\<close> when running it throws, \<open>Some (Inr f)\<close> otherwise.
\<close>

datatype datum = Num int | Str string

record diagnostic =
  d_node :: node
  messageId :: string
  d_data :: "(string \<times> datum) list"
  d_fix :: "(error + text_fix) option"

text \<open>\<^verbatim>\<open>" ".repeat(n)\<close> and \<^verbatim>\<open>"\n".repeat(n)\<close> throw a RangeError for a negative count.\<close>

definition repeat :: "char \<Rightarrow> int \<Rightarrow> error + string" where
  "repeat c n = (if n < 0 then Inl RangeError else Inr (replicate (nat n) c))"

definition lineText :: "nat \<Rightarrow> datum" where
  "lineText required = Str (if required = 1 then ''line'' else ''lines'')"

section \<open>Rule block-padding\<close>



definition getBlankLinesBetween :: "'a node_scheme \<Rightarrow> 'b node_scheme \<Rightarrow> int" where
  "getBlankLinesBetween node1 node2 =
     (let node1End = line (loc_end (loc node1));
          node2Start = line (loc_start (loc node2))
      in node2Start - node1End - 1)"

subsection \<open>The documentation-block heuristic\<close>

text \<open>
  \<^verbatim>\<open>/\s*@\w+|param|return|description|example|author/.test(text)\<close>, without the \<^verbatim>\<open>i\<close>
  flag.  The test succeeds when the pattern matches at some offset of the text.  At one
  offset, the first alternative skips white space, then needs an at-sign and at least
  one word character; the others need the literal word.
\<close>

definition isWhiteSpace :: "char \<Rightarrow> bool" where
  "isWhiteSpace c = (c \<in> set [CHR 0x09, CHR 0x0A, CHR 0x0B, CHR 0x0C, CHR 0x0D, CHR 0x20, CHR 0xA0])"

definition charCode :: "char \<Rightarrow> nat" where
  "charCode c = of_char c"

definition isWordChar :: "char \<Rightarrow> bool" where
  "isWordChar c =
     ((charCode (CHR ''a'') \<le> charCode c \<and> charCode c \<le> charCode (CHR ''z'')) \<or>
      (charCode (CHR ''A'') \<le> charCode c \<and> charCode c \<le> charCode (CHR ''Z'')) \<or>
      (charCode (CHR ''0'') \<le> charCode c \<and> charCode c \<le> charCode (CHR ''9'')) \<or>
      c = CHR ''_'')"

definition matchTag :: "string \<Rightarrow> bool" where
  "matchTag s =
     (case dropWhile isWhiteSpace s of
        c # w # _ \<Rightarrow> c = CHR ''@'' \<and> isWordChar w
      | _ \<Rightarrow> False)"

definition docstringWords :: "string list" where
  "docstringWords = [''param'', ''return'', ''description'', ''example'', ''author'']"

definition matchHere :: "string \<Rightarrow> bool" where
  "matchHere s = (matchTag s \<or> list_ex (\<lambda>w. prefix w s) docstringWords)"

fun hasDocstringPatterns :: "string \<Rightarrow> bool" where
  "hasDocstringPatterns [] = matchHere []"
| "hasDocstringPatterns (c # cs) = (matchHere (c # cs) \<or> hasDocstringPatterns cs)"

definition isDocstring :: "token \<Rightarrow> bool" where
  "isDocstring comment =
     (if ntype comment = ''Block'' then
        (let commentText = tvalue comment;
             isMultiline = (NL \<in> set commentText)
         in isMultiline \<or> hasDocstringPatterns commentText)
      else False)"

subsection \<open>Padding between root-level blocks\<close>






section \<open>Rule consistent-line-spacing\<close>

text \<open>
  A statement knows its parent: the parent's \<^verbatim>\<open>type\<close> and, when the parent has one, its
  \<^verbatim>\<open>body\<close> array.  Identity of nodes (\<^verbatim>\<open>===\<close>) is equality of type, range and location.
\<close>

record parent_info =
  p_type :: string
  p_body :: "node list option"

record statement = node +
  parent :: "parent_info option"

record cls_options =
  beforeImports :: nat
  afterImports :: nat
  beforeExports :: nat
  afterExports :: nat
  beforeClass :: nat
  afterClass :: nat
  beforeFunction :: nat
  afterFunction :: nat
  beforeComment :: nat
  ignoreTopLevelCode :: bool
  skipImportGroups :: bool

definition cls_defaults :: cls_options where
  "cls_defaults = \<lparr>beforeImports = 1, afterImports = 1, beforeExports = 1, afterExports = 1,
     beforeClass = 2, afterClass = 2, beforeFunction = 2, afterFunction = 2,
     beforeComment = 1, ignoreTopLevelCode = False, skipImportGroups = True\<rparr>"

definition getNextNonCommentToken :: "sourceCode \<Rightarrow> 'a node_scheme \<Rightarrow> token option" where
  "getNextNonCommentToken sc n = getTokenAfter sc n False anyToken"

definition getPrevNonCommentToken :: "sourceCode \<Rightarrow> 'a node_scheme \<Rightarrow> token option" where
  "getPrevNonCommentToken sc n = getTokenBefore sc n False anyToken"

definition isFirstInParent :: "statement \<Rightarrow> bool" where
  "isFirstInParent n =
     (case parent n of
        None \<Rightarrow> True
      | Some p \<Rightarrow>
          (case p_body p of
             None \<Rightarrow> True
           | Some [] \<Rightarrow> True
           | Some (b # bs) \<Rightarrow> b = node.truncate n))"

definition isLastInParent :: "statement \<Rightarrow> bool" where
  "isLastInParent n =
     (case parent n of
        None \<Rightarrow> True
      | Some p \<Rightarrow>
          (case p_body p of
             None \<Rightarrow> True
           | Some [] \<Rightarrow> True
           | Some (b # bs) \<Rightarrow> last (b # bs) = node.truncate n))"

definition isTopLevel :: "statement \<Rightarrow> bool" where
  "isTopLevel n = (case parent n of None \<Rightarrow> False | Some p \<Rightarrow> p_type p = ''Program'')"

definition isImport :: "'a node_scheme \<Rightarrow> bool" where
  "isImport n = (ntype n = ''ImportDeclaration'')"

definition isExport :: "'a node_scheme \<Rightarrow> bool" where
  "isExport n =
     (ntype n = ''ExportNamedDeclaration'' \<or> ntype n = ''ExportDefaultDeclaration'' \<or>
      ntype n = ''ExportAllDeclaration'')"

definition lineData :: "nat \<Rightarrow> int \<Rightarrow> string \<Rightarrow> (string \<times> datum) list" where
  "lineData requiredLines blankLines nodeType =
     [(''expected'', Num (int requiredLines)), (''actual'', Num blankLines),
      (''nodeType'', Str nodeType), (''lineText'', lineText requiredLines)]"

definition checkLinesBefore ::
  "cls_options \<Rightarrow> sourceCode \<Rightarrow> statement \<Rightarrow> nat \<Rightarrow> string \<Rightarrow> diagnostic list" where
  "checkLinesBefore opts sc n requiredLines nodeType =
     (if isFirstInParent n \<and> (ignoreTopLevelCode opts \<and> isTopLevel n) then []
      else
        let prevToken = getPrevNonCommentToken sc n;
            prevNode = (case prevToken of
                          Some t \<Rightarrow> getNodeByRangeIndex sc (fst (nrange t))
                        | None \<Rightarrow> None)
        in if skipImportGroups opts \<and> isImport n \<and>
              (case prevNode of Some p \<Rightarrow> isImport p | None \<Rightarrow> False) then []
           else
             (case getTokenBefore sc n True anyToken of
                None \<Rightarrow> []
              | Some prevTokenWithComments \<Rightarrow>
                  let blankLines = line (loc_start (loc n))
                                   - line (loc_end (loc prevTokenWithComments)) - 1
                  in if blankLines \<noteq> int requiredLines then
                       [\<lparr>d_node = node.truncate n,
                         messageId = ''missingLinesBefore'',
                         d_data = lineData requiredLines blankLines nodeType,
                         d_fix =
                           (case getTokenBefore sc n True anyToken of
                              None \<Rightarrow> None
                            | Some tokenBefore \<Rightarrow>
                                Some (Inr (replaceTextRange
                                  (snd (nrange tokenBefore), fst (nrange n))
                                  (replicate (requiredLines + 1) NL))))\<rparr>]
                     else []))"

definition checkLinesAfter ::
  "cls_options \<Rightarrow> sourceCode \<Rightarrow> statement \<Rightarrow> nat \<Rightarrow> string \<Rightarrow> diagnostic list" where
  "checkLinesAfter opts sc n requiredLines nodeType =
     (if isLastInParent n \<and> (ignoreTopLevelCode opts \<and> isTopLevel n) then []
      else
        let nextToken = getNextNonCommentToken sc n;
            nextNode = (case nextToken of
                          Some t \<Rightarrow> getNodeByRangeIndex sc (fst (nrange t))
                        | None \<Rightarrow> None)
        in if skipImportGroups opts \<and> isImport n \<and>
              (case nextNode of Some p \<Rightarrow> isImport p | None \<Rightarrow> False) then []
           else
             (case getTokenAfter sc n True anyToken of
                None \<Rightarrow> []
              | Some nextTokenWithComments \<Rightarrow>
                  let blankLines = line (loc_start (loc nextTokenWithComments))
                                   - line (loc_end (loc n)) - 1
                  in if blankLines \<noteq> int requiredLines then
                       [\<lparr>d_node = node.truncate n,
                         messageId = ''missingLinesAfter'',
                         d_data = lineData requiredLines blankLines nodeType,
                         d_fix =
                           (case getTokenAfter sc n True anyToken of
                              None \<Rightarrow> None
                            | Some tokenAfter \<Rightarrow>
                                Some (Inr (replaceTextRange
                                  (snd (nrange n), fst (nrange tokenAfter))
                                  (replicate (requiredLines + 1) NL))))\<rparr>]
                     else []))"

text \<open>
  The listeners of the rule, by node type; each runs the before check, then the after
  check.  (The rule also registers a listener for block comments, which the traversal
  of the tree never visits.)
\<close>

definition cls_visit :: "cls_options \<Rightarrow> sourceCode \<Rightarrow> statement \<Rightarrow> diagnostic list" where
  "cls_visit opts sc n =
     (if ntype n = ''ImportDeclaration'' then
        checkLinesBefore opts sc n (beforeImports opts) ''import declaration'' @
        checkLinesAfter opts sc n (afterImports opts) ''import declaration''
      else if isExport n then
        checkLinesBefore opts sc n (beforeExports opts) ''export declaration'' @
        checkLinesAfter opts sc n (afterExports opts) ''export declaration''
      else if ntype n = ''ClassDeclaration'' then
        checkLinesBefore opts sc n (beforeClass opts) ''class declaration'' @
        checkLinesAfter opts sc n (afterClass opts) ''class declaration''
      else if ntype n = ''FunctionDeclaration'' then
        checkLinesBefore opts sc n (beforeFunction opts) ''function declaration'' @
        checkLinesAfter opts sc n (afterFunction opts) ''function declaration''
      else [])"

section \<open>Rule aligned-assignments\<close>

text \<open>
  A declarator \<^verbatim>\<open>id = init\<close> knows the keyword of the declaration it belongs to
  (\<^verbatim>\<open>parent.kind\<close>), its binding pattern with an optional type annotation, and its
  optional initializer.
\<close>

record binding = node +
  typeAnnotation :: "node option"

record declarator = node +
  parent_kind :: string
  decl_id :: binding
  decl_init :: "node option"

record aa_options =
  alignComments :: bool
  alignLiterals :: bool
  blockSize :: nat
  ignoreAdjacent :: bool
  ignoreIfAssignmentsNotInBlock :: bool
  alignTypes :: bool
  ignoreTypesMismatch :: bool

definition aa_defaults :: aa_options where
  "aa_defaults = \<lparr>alignComments = False, alignLiterals = False, blockSize = 2,
     ignoreAdjacent = True, ignoreIfAssignmentsNotInBlock = True,
     alignTypes = False, ignoreTypesMismatch = True\<rparr>"

text \<open>Sequencing of computations that can throw.\<close>

definition bindE :: "error + 'a \<Rightarrow> ('a \<Rightarrow> error + 'b) \<Rightarrow> error + 'b" where
  "bindE m f = (case m of Inl e \<Rightarrow> Inl e | Inr x \<Rightarrow> f x)"

fun mapE :: "('a \<Rightarrow> error + 'b) \<Rightarrow> 'a list \<Rightarrow> error + 'b list" where
  "mapE f [] = Inr []"
| "mapE f (x # xs) = bindE (f x) (\<lambda>y. bindE (mapE f xs) (\<lambda>ys. Inr (y # ys)))"

text \<open>
  The column of the nearest \<^verbatim>\<open>=\<close> token before the initializer, or \<^verbatim>\<open>null\<close> (\<open>None\<close>);
  asking for the token before a missing initializer throws.
\<close>

definition getEqualsColumn :: "sourceCode \<Rightarrow> declarator \<Rightarrow> error + int option" where
  "getEqualsColumn sc d =
     (case decl_init d of
        None \<Rightarrow> Inl TypeError
      | Some i \<Rightarrow>
          (case getTokenBefore sc i False (\<lambda>t. tvalue t = ''='') of
             None \<Rightarrow> Inr None
           | Some equalsToken \<Rightarrow> Inr (Some (column (loc_start (loc equalsToken))))))"

definition getTypeColonColumn :: "sourceCode \<Rightarrow> declarator \<Rightarrow> int option" where
  "getTypeColonColumn sc d =
     (case typeAnnotation (decl_id d) of
        Some ta \<Rightarrow>
          (case getFirstToken sc ta of
             None \<Rightarrow> None
           | Some colonToken \<Rightarrow> Some (column (loc_start (loc colonToken))))
      | None \<Rightarrow> None)"

definition areNodesAdjacent :: "'a node_scheme \<Rightarrow> 'b node_scheme \<Rightarrow> bool" where
  "areNodesAdjacent node1 node2 =
     (line (loc_start (loc node2)) = line (loc_end (loc node1)) + 1)"

definition haveSameKind :: "declarator list \<Rightarrow> bool" where
  "haveSameKind declarations =
     (case declarations of
        [] \<Rightarrow> True
      | d # ds \<Rightarrow> list_all (\<lambda>decl. parent_kind decl = parent_kind d) declarations)"

definition hasTypeAnnotation :: "declarator \<Rightarrow> bool" where
  "hasTypeAnnotation decl = (typeAnnotation (decl_id decl) \<noteq> None)"

definition allHaveTypes :: "declarator list \<Rightarrow> bool" where
  "allHaveTypes declarations = list_all hasTypeAnnotation declarations"

definition anyHaveTypes :: "declarator list \<Rightarrow> bool" where
  "anyHaveTypes declarations = list_ex hasTypeAnnotation declarations"

text \<open>
  \<^verbatim>\<open>Math.max(...xs)\<close>: \<^verbatim>\<open>null\<close> counts as 0; of no arguments it is \<^verbatim>\<open>-Infinity\<close>,
  here \<open>None\<close>.
\<close>

definition numberOf :: "int option \<Rightarrow> int" where
  "numberOf x = (case x of None \<Rightarrow> 0 | Some v \<Rightarrow> v)"

definition mathMax :: "int option list \<Rightarrow> int option" where
  "mathMax xs =
     (case xs of [] \<Rightarrow> None | y # ys \<Rightarrow> Some (fold (\<lambda>v m. max m (numberOf v)) ys (numberOf y)))"

definition getMaxEqualsColumn :: "sourceCode \<Rightarrow> declarator list \<Rightarrow> error + int option" where
  "getMaxEqualsColumn sc declarations =
     bindE (mapE (getEqualsColumn sc) declarations) (\<lambda>cols. Inr (mathMax cols))"

definition getMaxTypeColonColumn :: "sourceCode \<Rightarrow> declarator list \<Rightarrow> int option" where
  "getMaxTypeColonColumn sc declarations =
     (let columns = filter (\<lambda>c. c \<noteq> None) (map (getTypeColonColumn sc) declarations)
      in if columns \<noteq> [] then mathMax columns else None)"

text \<open>
  The replacement text for one declarator.  \<^verbatim>\<open>!equalsColumn\<close> holds for \<^verbatim>\<open>null\<close> and for
  column 0.  In \<^verbatim>\<open>typeColon + typeText.length\<close> a \<^verbatim>\<open>null\<close> column counts as 0.
\<close>

definition getFixedDeclaration ::
  "sourceCode \<Rightarrow> declarator \<Rightarrow> int \<Rightarrow> int option \<Rightarrow> error + string" where
  "getFixedDeclaration sc d targetEqualsColumn targetTypeColumn =
     (let originalText = getText sc d;
          idText = getText sc (decl_id d);
          initText = (case decl_init d of Some i \<Rightarrow> getText sc i | None \<Rightarrow> [])
      in bindE (getEqualsColumn sc d) (\<lambda>equalsColumn.
         let hasType = hasTypeAnnotation d;
             typeColon = (if hasType then getTypeColonColumn sc d else None);
             typeText = (case typeAnnotation (decl_id d) of
                           Some ta \<Rightarrow> getText sc ta | None \<Rightarrow> [])
         in if equalsColumn = None \<or> equalsColumn = Some 0 then Inr originalText
            else
              bindE (case targetTypeColumn of
                       Some target \<Rightarrow>
                         if hasType then
                           bindE (repeat (CHR '' '')
                                    (target - (int (length idText) + int (length idText))))
                             (\<lambda>typeColonPadding. Inr (idText @ typeColonPadding @ typeText))
                         else Inr idText
                     | None \<Rightarrow> Inr idText) (\<lambda>result.
              let currentEndPos = (if hasType then numberOf typeColon + int (length typeText)
                                   else int (length idText))
              in bindE (repeat (CHR '' '') (targetEqualsColumn - currentEndPos))
                   (\<lambda>equalsPadding. Inr (result @ equalsPadding @ ''= '' @ initText)))))"

definition alignmentReport ::
  "sourceCode \<Rightarrow> declarator \<Rightarrow> string \<Rightarrow> int \<Rightarrow> int option \<Rightarrow> diagnostic" where
  "alignmentReport sc d msg maxEqualsColumn maxTypeColonColumn =
     \<lparr>d_node = node.truncate d,
      messageId = msg,
      d_data = [],
      d_fix = Some (bindE (getFixedDeclaration sc d maxEqualsColumn maxTypeColonColumn)
                      (\<lambda>fixed. Inr (replaceText d fixed)))\<rparr>"

definition checkDeclarator ::
  "aa_options \<Rightarrow> sourceCode \<Rightarrow> int \<Rightarrow> int option \<Rightarrow> declarator \<Rightarrow> error + diagnostic list" where
  "checkDeclarator opts sc maxEqualsColumn maxTypeColonColumn d =
     bindE (getEqualsColumn sc d) (\<lambda>equalsColumn.
       Inr ((if equalsColumn \<noteq> None \<and> equalsColumn \<noteq> Some maxEqualsColumn then
               [alignmentReport sc d ''misalignedAssignment'' maxEqualsColumn maxTypeColonColumn]
             else []) @
            (if alignTypes opts \<and> maxTypeColonColumn \<noteq> None then
               (let typeColumn = getTypeColonColumn sc d
                in if typeColumn \<noteq> None \<and> typeColumn \<noteq> maxTypeColonColumn then
                     [alignmentReport sc d ''misalignedTypes'' maxEqualsColumn maxTypeColonColumn]
                   else [])
             else [])))"

definition checkAlignment ::
  "aa_options \<Rightarrow> sourceCode \<Rightarrow> declarator list \<Rightarrow> error + diagnostic list" where
  "checkAlignment opts sc declarations =
     (if length declarations < blockSize opts then Inr []
      else if ignoreIfAssignmentsNotInBlock opts \<and> \<not> haveSameKind declarations then Inr []
      else
        bindE (getMaxEqualsColumn sc declarations) (\<lambda>maxEquals.
          let maxTypeColonColumn =
                (if alignTypes opts \<and> anyHaveTypes declarations then
                   (if ignoreTypesMismatch opts \<and> \<not> allHaveTypes declarations then None
                    else getMaxTypeColonColumn sc declarations)
                 else None)
          in (case maxEquals of
                None \<Rightarrow> Inr []
              | Some maxEqualsColumn \<Rightarrow>
                  bindE (mapE (checkDeclarator opts sc maxEqualsColumn maxTypeColonColumn)
                           declarations)
                    (\<lambda>reports. Inr (concat reports)))))"

text \<open>
  Splitting the declarators that have an initializer into runs of vertically adjacent
  ones: the loop keeps the finished groups and the current group.
\<close>

fun adjacentLoop ::
  "nat \<Rightarrow> declarator \<Rightarrow> declarator list \<Rightarrow> declarator list list \<Rightarrow> declarator list
     \<Rightarrow> declarator list list" where
  "adjacentLoop bs prevDecl [] adjacentGroups currentGroup =
     (if length currentGroup \<ge> bs then adjacentGroups @ [currentGroup] else adjacentGroups)"
| "adjacentLoop bs prevDecl (currentDecl # rest) adjacentGroups currentGroup =
     (if areNodesAdjacent prevDecl currentDecl
      then adjacentLoop bs currentDecl rest adjacentGroups (currentGroup @ [currentDecl])
      else adjacentLoop bs currentDecl rest
             (if length currentGroup \<ge> bs then adjacentGroups @ [currentGroup]
              else adjacentGroups)
             [currentDecl])"

definition processDeclarationGroup ::
  "aa_options \<Rightarrow> sourceCode \<Rightarrow> declarator list \<Rightarrow> error + diagnostic list" where
  "processDeclarationGroup opts sc declarations =
     (if declarations = [] then Inr []
      else
        let declarationsWithInits = filter (\<lambda>decl. decl_init decl \<noteq> None) declarations
        in if length declarationsWithInits < blockSize opts then Inr []
           else if ignoreAdjacent opts then
             (case declarationsWithInits of
                [] \<Rightarrow> Inl TypeError
              | d # ds \<Rightarrow>
                  bindE (mapE (checkAlignment opts sc) (adjacentLoop (blockSize opts) d ds [] [d]))
                    (\<lambda>reports. Inr (concat reports)))
           else checkAlignment opts sc declarationsWithInits)"

section \<open>Rule class-property-grouping\<close>

text \<open>
  A group descriptor of the configuration.  The schema requires only \<^verbatim>\<open>name\<close> and
  \<^verbatim>\<open>order\<close>, so \<^verbatim>\<open>types\<close> and \<^verbatim>\<open>matches\<close> may be absent.
\<close>

record group =
  g_name :: string
  g_types :: "string list option"
  g_matches :: "string list option"
  g_order :: int

definition defaultGroups :: "group list" where
  "defaultGroups =
     [\<lparr>g_name = ''static-properties'', g_types = Some [''ClassProperty''],
       g_matches = Some [''static''], g_order = 0\<rparr>,
      \<lparr>g_name = ''static-methods'', g_types = Some [''MethodDefinition''],
       g_matches = Some [''static''], g_order = 1\<rparr>,
      \<lparr>g_name = ''instance-properties'', g_types = Some [''ClassProperty''],
       g_matches = Some [], g_order = 2\<rparr>,
      \<lparr>g_name = ''constructor'', g_types = Some [''MethodDefinition''],
       g_matches = Some [''constructor''], g_order = 3\<rparr>,
      \<lparr>g_name = ''instance-methods'', g_types = Some [''MethodDefinition''],
       g_matches = Some [], g_order = 4\<rparr>]"

datatype member_key = Identifier string | Literal string | OtherKey

record member = node +
  m_kind :: string
  m_static :: bool
  m_key :: member_key

definition arrayIncludes :: "'a list option \<Rightarrow> 'a \<Rightarrow> error + bool" where
  "arrayIncludes xs x = (case xs of None \<Rightarrow> Inl TypeError | Some ys \<Rightarrow> Inr (x \<in> set ys))"

definition normalizedType :: "member \<Rightarrow> string" where
  "normalizedType n =
     (if ntype n = ''PropertyDefinition'' \<or> ntype n = ''TSPropertyDefinition''
      then ''ClassProperty'' else ntype n)"

text \<open>
  One round of the loop over the groups: \<open>Some g\<close> when the round returns the group,
  \<open>None\<close> when the loop goes on.  The tests run in the order of the source, so that a
  missing \<^verbatim>\<open>matches\<close> array throws only where the source reads it.
\<close>

definition methodMatch :: "member \<Rightarrow> group \<Rightarrow> error + bool" where
  "methodMatch n g =
     (let isConstructor = (m_kind n = ''constructor''); isStatic = m_static n
      in bindE (if isConstructor then arrayIncludes (g_matches g) ''constructor'' else Inr False)
           (\<lambda>r1. if r1 then Inr True else
         bindE (if isStatic then arrayIncludes (g_matches g) ''static'' else Inr False)
           (\<lambda>r2. if r2 then Inr True else
         if \<not> isStatic \<and> \<not> isConstructor then
           bindE (arrayIncludes (g_matches g) ''static'') (\<lambda>s.
             if s then Inr False
             else bindE (arrayIncludes (g_matches g) ''constructor'') (\<lambda>c. Inr (\<not> c)))
         else Inr False)))"

definition propertyMatch :: "member \<Rightarrow> group \<Rightarrow> error + bool" where
  "propertyMatch n g =
     (let isStatic = m_static n
      in bindE (if isStatic then arrayIncludes (g_matches g) ''static'' else Inr False)
           (\<lambda>r1. if r1 then Inr True else
         if \<not> isStatic then bindE (arrayIncludes (g_matches g) ''static'') (\<lambda>s. Inr (\<not> s))
         else Inr False))"

fun memberGroupLoop :: "member \<Rightarrow> group list \<Rightarrow> error + group option" where
  "memberGroupLoop n [] = Inr None"
| "memberGroupLoop n (g # gs) =
     bindE (arrayIncludes (g_types g) (normalizedType n)) (\<lambda>typeOk.
       if \<not> typeOk then memberGroupLoop n gs
       else
         bindE (if normalizedType n = ''MethodDefinition'' then methodMatch n g else Inr False)
           (\<lambda>m. if m then Inr (Some g) else
         bindE (if normalizedType n = ''ClassProperty'' then propertyMatch n g else Inr False)
           (\<lambda>p. if p then Inr (Some g) else memberGroupLoop n gs)))"

definition getMemberGroup :: "group list \<Rightarrow> member \<Rightarrow> error + group option" where
  "getMemberGroup groups n = memberGroupLoop n groups"

definition getMemberName :: "member \<Rightarrow> string" where
  "getMemberName n =
     (if ntype n = ''MethodDefinition'' \<or> ntype n = ''ClassProperty'' \<or>
         ntype n = ''PropertyDefinition'' \<or> ntype n = ''TSPropertyDefinition''
      then (case m_key n of Identifier name \<Rightarrow> name | Literal v \<Rightarrow> v | OtherKey \<Rightarrow> [])
      else [])"

definition orderReport :: "member \<Rightarrow> group \<Rightarrow> group \<Rightarrow> diagnostic" where
  "orderReport n lastGroupInfo g =
     \<lparr>d_node = node.truncate n,
      messageId = ''wrongGroupOrder'',
      d_data = [(''member'', Str (getMemberName n)),
                (''expectedGroup'', Str (g_name lastGroupInfo)),
                (''expectedGroupOrder'', Num (g_order lastGroupInfo)),
                (''actualGroup'', Str (g_name g)),
                (''actualGroupOrder'', Num (g_order g))],
      d_fix = None\<rparr>"

text \<open>
  The loop of \<^verbatim>\<open>checkGroupOrder\<close> with its two variables \<^verbatim>\<open>lastGroupOrder\<close> and
  \<^verbatim>\<open>lastGroup\<close>.  Reading \<^verbatim>\<open>lastGroupInfo.name\<close> of \<^verbatim>\<open>null\<close> throws.
\<close>

fun groupOrderLoop ::
  "(member \<times> group option) list \<Rightarrow> int \<Rightarrow> group option \<Rightarrow> error + diagnostic list" where
  "groupOrderLoop [] lastGroupOrder lastGroup = Inr []"
| "groupOrderLoop ((n, None) # members) lastGroupOrder lastGroup =
     groupOrderLoop members lastGroupOrder lastGroup"
| "groupOrderLoop ((n, Some g) # members) lastGroupOrder lastGroup =
     (let currentGroupOrder = g_order g
      in if currentGroupOrder < lastGroupOrder then
           (case lastGroup of
              None \<Rightarrow> Inl TypeError
            | Some lastGroupInfo \<Rightarrow>
                bindE (groupOrderLoop members currentGroupOrder (Some g))
                  (\<lambda>reports. Inr (orderReport n lastGroupInfo g # reports)))
         else groupOrderLoop members currentGroupOrder (Some g))"

definition checkGroupOrder :: "(member \<times> group option) list \<Rightarrow> error + diagnostic list" where
  "checkGroupOrder members = groupOrderLoop members (- 1) None"

text \<open>The members of a class body, each paired with its group.\<close>

definition classMembers :: "group list \<Rightarrow> member list \<Rightarrow> error + (member \<times> group option) list" where
  "classMembers groups body =
     mapE (\<lambda>memberNode. bindE (getMemberGroup groups memberNode) (\<lambda>g. Inr (memberNode, g))) body"

text \<open>
  The listener for class bodies returns at once for a body of at most one member;
  otherwise it pairs the members with their groups and runs its checks, of which the
  order check is the first.
\<close>

definition classBodyOrderCheck :: "group list \<Rightarrow> member list \<Rightarrow> error + diagnostic list" where
  "classBodyOrderCheck groups body =
     (if length body \<le> 1 then Inr []
      else bindE (classMembers groups body) checkGroupOrder)"

section \<open>Rule multiline-format\<close>

datatype multiline_style = Consistent | Always | Never

datatype bracket_style = SameLine | NewLine

datatype trailing_comma = CommaAlways | CommaNever

datatype object_alignment = AlignColon | AlignValue | AlignNone

record mf_options =
  allowSingleLine :: bool
  multilineStyle :: multiline_style
  minItems :: nat
  maxLineLength :: nat
  bracketStyle :: bracket_style
  indentation :: nat
  trailingComma :: trailing_comma
  emptyLineBetweenGroups :: bool
  consistentSpacing :: bool
  objectAlignment :: object_alignment

definition mf_defaults :: mf_options where
  "mf_defaults = \<lparr>allowSingleLine = True, multilineStyle = Consistent, minItems = 3,
     maxLineLength = 80, bracketStyle = SameLine, indentation = 2,
     trailingComma = CommaAlways, emptyLineBetweenGroups = False,
     consistentSpacing = True, objectAlignment = AlignNone\<rparr>"

text \<open>
  An item of a record literal is a property with a key and a value, or a spread element
  without them.  The elements of a sequence literal are nodes or holes (\<^verbatim>\<open>null\<close>).
\<close>

record property = node +
  p_key :: "node option"
  p_value :: "node option"

record objectExpression = node +
  properties :: "property list"

record arrayExpression = node +
  elements :: "node option list"

text \<open>Reading a field of the token that a query returned throws when there is none.\<close>

definition firstTokenE :: "sourceCode \<Rightarrow> 'a node_scheme \<Rightarrow> error + token" where
  "firstTokenE sc n = (case getFirstToken sc n of None \<Rightarrow> Inl TypeError | Some t \<Rightarrow> Inr t)"

definition lastTokenE :: "sourceCode \<Rightarrow> 'a node_scheme \<Rightarrow> error + token" where
  "lastTokenE sc n = (case getLastToken sc n of None \<Rightarrow> Inl TypeError | Some t \<Rightarrow> Inr t)"

definition isMultiline :: "sourceCode \<Rightarrow> 'a node_scheme \<Rightarrow> error + bool" where
  "isMultiline sc n =
     bindE (firstTokenE sc n) (\<lambda>openBracket.
     bindE (lastTokenE sc n) (\<lambda>closeBracket.
       Inr (line (loc_start (loc openBracket)) \<noteq> line (loc_start (loc closeBracket)))))"

definition getExpectedIndentation :: "mf_options \<Rightarrow> sourceCode \<Rightarrow> 'a node_scheme \<Rightarrow> error + int" where
  "getExpectedIndentation opts sc n =
     bindE (firstTokenE sc n) (\<lambda>firstToken.
       let baseIndentation = column (loc_start (loc firstToken))
       in Inr (baseIndentation + int (indentation opts)))"

text \<open>\<^verbatim>\<open>s.substring(a, b)\<close> swaps its arguments when \<^verbatim>\<open>a > b\<close>.\<close>

definition substring :: "string \<Rightarrow> nat \<Rightarrow> nat \<Rightarrow> string" where
  "substring s a b = slice s (min a b) (max a b)"

text \<open>\<^verbatim>\<open>s.replace(/\n\s*/g, ' ')\<close>: every newline, together with the white space that
  follows it, becomes one space.\<close>

function collapseNewlines :: "string \<Rightarrow> string" where
  "collapseNewlines [] = []"
| "collapseNewlines (c # cs) =
     (if c = NL then CHR '' '' # collapseNewlines (dropWhile isWhiteSpace cs)
      else c # collapseNewlines cs)"
  by pat_completeness auto
termination
  by (relation "measure length") (auto simp: length_dropWhile_le less_Suc_eq_le)

definition wouldExceedMaxLineLength ::
  "mf_options \<Rightarrow> sourceCode \<Rightarrow> 'a node_scheme \<Rightarrow> error + bool" where
  "wouldExceedMaxLineLength opts sc n =
     bindE (firstTokenE sc n) (\<lambda>firstToken.
     bindE (lastTokenE sc n) (\<lambda>lastToken.
       let startColumn = column (loc_start (loc firstToken));
           singleLineText =
             collapseNewlines
               (substring (sc_text sc) (fst (nrange firstToken)) (snd (nrange lastToken)))
       in Inr (startColumn + int (length singleLineText) > int (maxLineLength opts))))"

definition allElementsOnSameLine :: "'a node_scheme list \<Rightarrow> bool" where
  "allElementsOnSameLine els =
     (case els of
        [] \<Rightarrow> True
      | e # es \<Rightarrow>
          (let firstElementLine = line (loc_start (loc e))
           in list_all (\<lambda>element. line (loc_start (loc element)) = firstElementLine) els))"

fun adjacentShareLine :: "'a node_scheme list \<Rightarrow> bool" where
  "adjacentShareLine (a # b # rest) =
     (line (loc_end (loc a)) = line (loc_start (loc b)) \<or> adjacentShareLine (b # rest))"
| "adjacentShareLine els = False"

definition allElementsOnSeparateLines ::
  "mf_options \<Rightarrow> sourceCode \<Rightarrow> 'a node_scheme \<Rightarrow> 'b node_scheme list \<Rightarrow> error + bool" where
  "allElementsOnSeparateLines opts sc n els =
     (case els of
        [] \<Rightarrow> Inr True
      | e # es \<Rightarrow>
          bindE (if bracketStyle opts = NewLine then
                   bindE (firstTokenE sc n) (\<lambda>openingBracket.
                     Inr (line (loc_start (loc openingBracket)) = line (loc_start (loc e))))
                 else Inr False) (\<lambda>onBracketLine.
            if onBracketLine then Inr False
            else if adjacentShareLine els then Inr False
            else
              bindE (lastTokenE sc n) (\<lambda>closingBracket.
                if line (loc_end (loc (last els))) = line (loc_start (loc closingBracket))
                then Inr False else Inr True)))"

definition isColon :: "token \<Rightarrow> bool" where
  "isColon t = (tvalue t = '':'')"

definition colonSpacing :: "sourceCode \<Rightarrow> property \<Rightarrow> error + (int \<times> int) option" where
  "colonSpacing sc prop =
     (case p_value prop of
        None \<Rightarrow> Inl TypeError
      | Some v \<Rightarrow>
          (case getTokenBefore sc v False isColon of
             None \<Rightarrow> Inr None
           | Some colon \<Rightarrow>
               (case getTokenBefore sc colon False anyToken of
                  None \<Rightarrow> Inl TypeError
                | Some prevTok \<Rightarrow>
                    (case getTokenAfter sc colon False anyToken of
                       None \<Rightarrow> Inl TypeError
                     | Some nextTok \<Rightarrow>
                         Inr (Some (int (fst (nrange colon)) - int (snd (nrange prevTok)),
                                    int (fst (nrange nextTok)) - int (snd (nrange colon))))))))"

definition hasConsistentColonSpacing :: "sourceCode \<Rightarrow> objectExpression \<Rightarrow> error + bool" where
  "hasConsistentColonSpacing sc n =
     (if ntype n \<noteq> ''ObjectExpression'' \<or> properties n = [] then Inr True
      else
        let props = filter (\<lambda>prop. ntype prop = ''Property'') (properties n)
        in if length props \<le> 1 then Inr True
           else
             bindE (mapE (colonSpacing sc) props) (\<lambda>raw.
               let spacings = List.map_filter id raw
               in (case spacings of
                     [] \<Rightarrow> Inr True
                   | [x] \<Rightarrow> Inr True
                   | firstSpacing # others \<Rightarrow>
                       Inr (list_all (\<lambda>spacing. spacing = firstSpacing) spacings))))"

subsection \<open>Full reconstruction of a literal\<close>

fun joinWith :: "string \<Rightarrow> string list \<Rightarrow> string" where
  "joinWith sep [] = []"
| "joinWith sep [x] = x"
| "joinWith sep (x # y # ys) = x @ sep @ joinWith sep (y # ys)"

text \<open>\<^verbatim>\<open>s.indexOf(":")\<close>, with \<open>None\<close> for -1.\<close>

fun indexOf :: "char \<Rightarrow> string \<Rightarrow> nat option" where
  "indexOf c [] = None"
| "indexOf c (x # xs) =
     (if x = c then Some 0 else (case indexOf c xs of None \<Rightarrow> None | Some i \<Rightarrow> Some (Suc i)))"

definition isKeyed :: "property \<Rightarrow> bool" where
  "isKeyed el = (ntype el = ''Property'' \<and> p_key el \<noteq> None)"

definition keyText :: "sourceCode \<Rightarrow> property \<Rightarrow> string" where
  "keyText sc el = (case p_key el of Some k \<Rightarrow> getText sc k | None \<Rightarrow> [])"

text \<open>The text of one item, with the key padded to the colon column when colons are
  aligned.  \<open>colonPos\<close> is \<open>None\<close> for the \<^verbatim>\<open>-Infinity\<close> of an empty maximum.\<close>

definition itemText ::
  "mf_options \<Rightarrow> sourceCode \<Rightarrow> bool \<Rightarrow> int option \<Rightarrow> property \<Rightarrow> error + string" where
  "itemText opts sc isObj colonPos element =
     (let elementText = getText sc element
      in if isObj \<and> isKeyed element \<and> objectAlignment opts = AlignColon then
           (case indexOf (CHR '':'') elementText of
              None \<Rightarrow> Inr elementText
            | Some colonIndex \<Rightarrow>
                (case colonPos of
                   None \<Rightarrow> Inl RangeError
                 | Some cp \<Rightarrow>
                     bindE (repeat (CHR '' '') (cp - int (length (keyText sc element))))
                       (\<lambda>padding. Inr (keyText sc element @ padding
                                         @ drop colonIndex elementText))))
         else Inr elementText)"

fun itemLines ::
  "mf_options \<Rightarrow> sourceCode \<Rightarrow> bool \<Rightarrow> int option \<Rightarrow> string \<Rightarrow> property list \<Rightarrow> error + string" where
  "itemLines opts sc isObj colonPos itemIndent [] = Inr []"
| "itemLines opts sc isObj colonPos itemIndent (element # rest) =
     bindE (itemText opts sc isObj colonPos element) (\<lambda>elementText.
     bindE (itemLines opts sc isObj colonPos itemIndent rest) (\<lambda>restText.
       Inr (itemIndent @ elementText
            @ (if rest \<noteq> [] \<or> trailingComma opts = CommaAlways then '','' else [])
            @ [NL] @ restText)))"

definition createFixedText ::
  "mf_options \<Rightarrow> sourceCode \<Rightarrow> 'a node_scheme \<Rightarrow> property list \<Rightarrow> error + string" where
  "createFixedText opts sc n els =
     (let isObj = (ntype n = ''ObjectExpression'');
          openingBracket = (if isObj then ''{'' else ''['');
          closingBracket = (if isObj then ''}'' else '']'')
      in bindE (firstTokenE sc n) (\<lambda>firstToken.
         let nodeIndent = column (loc_start (loc firstToken))
         in bindE (repeat (CHR '' '') nodeIndent) (\<lambda>indent.
            bindE (repeat (CHR '' '') (nodeIndent + int (indentation opts))) (\<lambda>itemIndent.
            let fixedText = (if bracketStyle opts = SameLine then openingBracket
                             else openingBracket @ [NL] @ itemIndent)
            in if els = [] then Inr (fixedText @ closingBracket)
               else
                 bindE (if allElementsOnSameLine els \<and> allowSingleLine opts \<and>
                           length els < minItems opts
                        then bindE (wouldExceedMaxLineLength opts sc n) (\<lambda>w. Inr (\<not> w))
                        else Inr False) (\<lambda>singleLine.
                   if singleLine then
                     Inr (fixedText @ '' '' @ joinWith '', '' (map (getText sc) els)
                          @ '' '' @ closingBracket)
                   else
                     (let colonPos =
                            (if isObj \<and> objectAlignment opts = AlignColon then
                               mathMax (map (\<lambda>el. Some (int (length (keyText sc el))))
                                           (filter isKeyed els))
                             else Some 0)
                      in bindE (itemLines opts sc isObj colonPos itemIndent els) (\<lambda>body.
                           Inr (fixedText @ [NL] @ body @ indent @ closingBracket))))))))"

definition reconstructionFix ::
  "mf_options \<Rightarrow> sourceCode \<Rightarrow> 'a node_scheme \<Rightarrow> property list \<Rightarrow> (error + text_fix) option" where
  "reconstructionFix opts sc n els =
     Some (bindE (createFixedText opts sc n els) (\<lambda>fixed. Inr (replaceText n fixed)))"

definition elementItem :: "node \<Rightarrow> property" where
  "elementItem el = \<lparr>ntype = ntype el, nrange = nrange el, loc = loc el,
                     p_key = None, p_value = None\<rparr>"

subsection \<open>The checks of a multiline literal\<close>

definition wrongIndent ::
  "sourceCode \<Rightarrow> 'a node_scheme \<Rightarrow> int \<Rightarrow> 'b node_scheme \<Rightarrow> error + bool" where
  "wrongIndent sc n expectedIndent item =
     bindE (firstTokenE sc item) (\<lambda>itemToken.
     bindE (firstTokenE sc n) (\<lambda>firstToken.
       Inr (line (loc_start (loc itemToken)) \<noteq> line (loc_start (loc firstToken)) \<and>
            column (loc_start (loc itemToken)) \<noteq> expectedIndent)))"

definition simpleReport :: "'a node_scheme \<Rightarrow> string \<Rightarrow> (string \<times> datum) list
    \<Rightarrow> (error + text_fix) option \<Rightarrow> diagnostic" where
  "simpleReport n msg dat fx =
     \<lparr>d_node = node.truncate n, messageId = msg, d_data = dat, d_fix = fx\<rparr>"

text \<open>The trailing-separator check, shared by both kinds of literal: the token after the
  last item decides.  \<open>None\<close> when the check passes.\<close>

definition trailingCommaReport ::
  "mf_options \<Rightarrow> sourceCode \<Rightarrow> 'a node_scheme \<Rightarrow> 'b node_scheme \<Rightarrow> diagnostic option" where
  "trailingCommaReport opts sc n lastItem =
     (case getTokenAfter sc lastItem False anyToken of
        None \<Rightarrow> None
      | Some tokenAfterLast \<Rightarrow>
          if trailingComma opts = CommaAlways \<and> tvalue tokenAfterLast \<noteq> '','' then
            Some (simpleReport n ''missingTrailingComma'' []
                    (Some (Inr (insertTextAfter lastItem '',''))))
          else if trailingComma opts = CommaNever \<and> tvalue tokenAfterLast = '','' then
            Some (simpleReport n ''unexpectedTrailingComma'' []
                    (Some (Inr (removeRange (snd (nrange lastItem),
                                             snd (nrange tokenAfterLast))))))
          else None)"

definition colonColumn :: "sourceCode \<Rightarrow> property \<Rightarrow> error + int option" where
  "colonColumn sc prop =
     (case p_value prop of
        None \<Rightarrow> Inl TypeError
      | Some v \<Rightarrow>
          (case getTokenBefore sc v False isColon of
             None \<Rightarrow> Inr None
           | Some colon \<Rightarrow> Inr (Some (column (loc_start (loc colon))))))"

text \<open>\<^verbatim>\<open>.filter(Boolean)\<close> on columns drops \<^verbatim>\<open>null\<close> and 0.\<close>

definition truthyColumns :: "int option list \<Rightarrow> int list" where
  "truthyColumns cols = filter (\<lambda>c. c \<noteq> 0) (List.map_filter id cols)"

definition colonAlignmentCheck ::
  "mf_options \<Rightarrow> sourceCode \<Rightarrow> objectExpression \<Rightarrow> error + diagnostic list" where
  "colonAlignmentCheck opts sc n =
     (if objectAlignment opts = AlignColon \<and> length (properties n) > 1 then
        (let propsWithKeys = filter isKeyed (properties n)
         in if length propsWithKeys \<le> 1 then Inr []
            else
              bindE (mapE (colonColumn sc) propsWithKeys) (\<lambda>cols.
                (case truthyColumns cols of
                   firstColonPos # c # cs \<Rightarrow>
                     if \<not> list_all (\<lambda>pos. pos = firstColonPos) (firstColonPos # c # cs) then
                       Inr [simpleReport n ''incorrectColonAlignment'' []
                              (reconstructionFix opts sc n (properties n))]
                     else Inr []
                 | _ \<Rightarrow> Inr [])))
      else Inr [])"

definition objectMultilineChecks ::
  "mf_options \<Rightarrow> sourceCode \<Rightarrow> objectExpression \<Rightarrow> error + diagnostic list" where
  "objectMultilineChecks opts sc n =
     bindE (getExpectedIndentation opts sc n) (\<lambda>expectedIndent.
     bindE (mapE (wrongIndent sc n expectedIndent) (properties n)) (\<lambda>wrong.
       if list_ex id wrong then
         Inr [simpleReport n ''inconsistentIndentation''
                [(''spaces'', Num (int (indentation opts)))]
                (reconstructionFix opts sc n (properties n))]
       else
         bindE (allElementsOnSeparateLines opts sc n (properties n)) (\<lambda>allSeparate.
           if \<not> allSeparate \<and> multilineStyle opts = Always then
             Inr [simpleReport n ''inconsistentNewlines'' [(''style'', Str ''separate'')]
                    (reconstructionFix opts sc n (properties n))]
           else
             (case trailingCommaReport opts sc n (last (properties n)) of
                Some d \<Rightarrow> Inr [d]
              | None \<Rightarrow>
                  bindE (if consistentSpacing opts
                         then bindE (hasConsistentColonSpacing sc n) (\<lambda>c. Inr (\<not> c))
                         else Inr False) (\<lambda>inconsistent.
                    if inconsistent then
                      Inr [simpleReport n ''inconsistentSpacing'' []
                             (reconstructionFix opts sc n (properties n))]
                    else colonAlignmentCheck opts sc n)))))"

text \<open>
  The decision \<^verbatim>\<open>shouldBeMultiline\<close> of both listeners, for a literal with the given
  number of items.  The operands of \<^verbatim>\<open>||\<close> are evaluated from the left, so the line
  length is measured only when the item count is below \<^verbatim>\<open>minItems\<close>.
\<close>

definition shouldBeMultiline ::
  "mf_options \<Rightarrow> sourceCode \<Rightarrow> 'a node_scheme \<Rightarrow> nat \<Rightarrow> error + bool" where
  "shouldBeMultiline opts sc n itemCount =
     (if itemCount \<ge> minItems opts then Inr True
      else bindE (wouldExceedMaxLineLength opts sc n) (\<lambda>w.
             Inr (w \<or> multilineStyle opts = Always)))"

definition processObjectExpression ::
  "mf_options \<Rightarrow> sourceCode \<Rightarrow> objectExpression \<Rightarrow> error + diagnostic list" where
  "processObjectExpression opts sc n =
     (if properties n = [] then Inr []
      else
        bindE (shouldBeMultiline opts sc n (length (properties n))) (\<lambda>shouldBe.
        bindE (isMultiline sc n) (\<lambda>isNodeMultiline.
          if shouldBe \<and> \<not> isNodeMultiline \<and> multilineStyle opts \<noteq> Never then
            Inr [simpleReport n ''singleLineToMultiline''
                   [(''count'', Num (int (length (properties n))))]
                   (reconstructionFix opts sc n (properties n))]
          else if isNodeMultiline then objectMultilineChecks opts sc n
          else Inr [])))"

definition arrayMultilineChecks ::
  "mf_options \<Rightarrow> sourceCode \<Rightarrow> arrayExpression \<Rightarrow> error + diagnostic list" where
  "arrayMultilineChecks opts sc n =
     bindE (getExpectedIndentation opts sc n) (\<lambda>expectedIndent.
       let nonNullElements = List.map_filter id (elements n)
       in bindE (mapE (wrongIndent sc n expectedIndent) nonNullElements) (\<lambda>wrong.
            if list_ex id wrong then
              Inr [simpleReport n ''inconsistentIndentation''
                     [(''spaces'', Num (int (indentation opts)))]
                     (reconstructionFix opts sc n (map elementItem nonNullElements))]
            else
              bindE (allElementsOnSeparateLines opts sc n nonNullElements) (\<lambda>allSeparate.
                if \<not> allSeparate \<and> multilineStyle opts = Always then
                  Inr [simpleReport n ''inconsistentNewlines'' [(''style'', Str ''separate'')]
                         (reconstructionFix opts sc n (map elementItem nonNullElements))]
                else if nonNullElements \<noteq> [] then
                  (case trailingCommaReport opts sc n (last nonNullElements) of
                     Some d \<Rightarrow> Inr [d]
                   | None \<Rightarrow> Inr [])
                else Inr [])))"

definition processArrayExpression ::
  "mf_options \<Rightarrow> sourceCode \<Rightarrow> arrayExpression \<Rightarrow> error + diagnostic list" where
  "processArrayExpression opts sc n =
     (if elements n = [] then Inr []
      else
        bindE (shouldBeMultiline opts sc n (length (elements n))) (\<lambda>shouldBe.
        bindE (isMultiline sc n) (\<lambda>isNodeMultiline.
          if shouldBe \<and> \<not> isNodeMultiline \<and> multilineStyle opts \<noteq> Never then
            Inr [simpleReport n ''singleLineToMultiline''
                   [(''count'', Num (int (length (elements n))))]
                   (reconstructionFix opts sc n
                      (map elementItem (List.map_filter id (elements n))))]
          else if isNodeMultiline then arrayMultilineChecks opts sc n
          else Inr [])))"

section \<open>Sample files\<close>

text \<open>
  Locations as the parser computes them from offsets: the line is one more than the
  number of newlines before the offset, the column the distance to the last of them.
\<close>

definition locFromIndex :: "string \<Rightarrow> nat \<Rightarrow> position" where
  "locFromIndex s i =
     \<lparr>line = 1 + int (length (filter (\<lambda>c. c = NL) (take i s))),
      column = int (length (takeWhile (\<lambda>c. c \<noteq> NL) (rev (take i s))))\<rparr>"

definition nodeAt :: "string \<Rightarrow> string \<Rightarrow> nat \<Rightarrow> nat \<Rightarrow> node" where
  "nodeAt s ty i j =
     \<lparr>ntype = ty, nrange = (i, j),
      loc = \<lparr>loc_start = locFromIndex s i, loc_end = locFromIndex s j\<rparr>\<rparr>"

definition tokenAt :: "string \<Rightarrow> string \<Rightarrow> nat \<Rightarrow> nat \<Rightarrow> token" where
  "tokenAt s ty i j =
     \<lparr>ntype = ty, nrange = (i, j),
      loc = \<lparr>loc_start = locFromIndex s i, loc_end = locFromIndex s j\<rparr>,
      tvalue = slice s i j\<rparr>"

text \<open>A block comment written on one line, at the start of a file; its value is the text
  between the delimiters.\<close>

definition blockComment :: "string \<Rightarrow> token" where
  "blockComment v =
     \<lparr>ntype = ''Block'', nrange = (0, length v + 4),
      loc = \<lparr>loc_start = \<lparr>line = 1, column = 0\<rparr>,
             loc_end = \<lparr>line = 1, column = int (length v) + 4\<rparr>\<rparr>,
      tvalue = v\<rparr>"

fun joinLines :: "string list \<Rightarrow> string" where
  "joinLines ls = joinWith [NL] ls"

text \<open>Two adjacent top-level functions, for the block-padding rule; two adjacent
  export declarations, two adjacent import declarations and a file of a single function,
  for the statement-spacing rule; a class whose instance property precedes a static
  method, for the member-grouping rule.\<close>

definition bp_text :: string where
  "bp_text = joinLines [''function f() {}'', ''function g() {}'']"


definition bp_body :: "node list" where
  "bp_body = [nodeAt bp_text ''FunctionDeclaration'' 0 15,
              nodeAt bp_text ''FunctionDeclaration'' 16 31]"

definition ex_text :: string where
  "ex_text = joinLines [''export {a};'', ''export {b};'']"

definition ex_source :: sourceCode where
  "ex_source =
     \<lparr>sc_text = ex_text,
      tokensAndComments =
        [tokenAt ex_text ''Keyword'' 0 6, tokenAt ex_text ''Punctuator'' 7 8,
         tokenAt ex_text ''Identifier'' 8 9, tokenAt ex_text ''Punctuator'' 9 10,
         tokenAt ex_text ''Punctuator'' 10 11,
         tokenAt ex_text ''Keyword'' 12 18, tokenAt ex_text ''Punctuator'' 19 20,
         tokenAt ex_text ''Identifier'' 20 21, tokenAt ex_text ''Punctuator'' 21 22,
         tokenAt ex_text ''Punctuator'' 22 23],
      ast = [nodeAt ex_text ''Program'' 0 23,
             nodeAt ex_text ''ExportNamedDeclaration'' 0 11,
             nodeAt ex_text ''ExportSpecifier'' 8 9,
             nodeAt ex_text ''Identifier'' 8 9,
             nodeAt ex_text ''ExportNamedDeclaration'' 12 23,
             nodeAt ex_text ''ExportSpecifier'' 20 21,
             nodeAt ex_text ''Identifier'' 20 21]\<rparr>"

definition topLevel :: "node list \<Rightarrow> node \<Rightarrow> statement" where
  "topLevel body n =
     node.extend n (statement.fields (Some \<lparr>p_type = ''Program'', p_body = Some body\<rparr>))"

definition ex_body :: "node list" where
  "ex_body = [nodeAt ex_text ''ExportNamedDeclaration'' 0 11,
              nodeAt ex_text ''ExportNamedDeclaration'' 12 23]"

definition im_text :: string where
  "im_text = joinLines [''import 'm';'', ''import 'n';'']"

definition im_source :: sourceCode where
  "im_source =
     \<lparr>sc_text = im_text,
      tokensAndComments =
        [tokenAt im_text ''Keyword'' 0 6, tokenAt im_text ''String'' 7 10,
         tokenAt im_text ''Punctuator'' 10 11,
         tokenAt im_text ''Keyword'' 12 18, tokenAt im_text ''String'' 19 22,
         tokenAt im_text ''Punctuator'' 22 23],
      ast = [nodeAt im_text ''Program'' 0 23,
             nodeAt im_text ''ImportDeclaration'' 0 11,
             nodeAt im_text ''Literal'' 7 10,
             nodeAt im_text ''ImportDeclaration'' 12 23,
             nodeAt im_text ''Literal'' 19 22]\<rparr>"

definition im_body :: "node list" where
  "im_body = [nodeAt im_text ''ImportDeclaration'' 0 11,
              nodeAt im_text ''ImportDeclaration'' 12 23]"

definition one_text :: string where
  "one_text = ''function f() {}''"

definition one_source :: sourceCode where
  "one_source =
     \<lparr>sc_text = one_text,
      tokensAndComments =
        [tokenAt one_text ''Keyword'' 0 8, tokenAt one_text ''Identifier'' 9 10,
         tokenAt one_text ''Punctuator'' 10 11, tokenAt one_text ''Punctuator'' 11 12,
         tokenAt one_text ''Punctuator'' 13 14, tokenAt one_text ''Punctuator'' 14 15],
      ast = [nodeAt one_text ''Program'' 0 15,
             nodeAt one_text ''FunctionDeclaration'' 0 15]\<rparr>"

definition one_function :: statement where
  "one_function = topLevel [nodeAt one_text ''FunctionDeclaration'' 0 15]
                    (nodeAt one_text ''FunctionDeclaration'' 0 15)"

definition cl_text :: string where
  "cl_text = joinLines [''class A {'', ''  x = 1;'', ''  static f() {}'', ''}'']"

definition memberAt :: "string \<Rightarrow> string \<Rightarrow> nat \<Rightarrow> nat \<Rightarrow> string \<Rightarrow> bool \<Rightarrow> member_key \<Rightarrow> member" where
  "memberAt s ty i j kind static k =
     node.extend (nodeAt s ty i j) (member.fields kind static k)"

definition cl_body :: "member list" where
  "cl_body = [memberAt cl_text ''PropertyDefinition'' 12 18 [] False (Identifier ''x''),
              memberAt cl_text ''MethodDefinition'' 21 34 ''method'' True (Identifier ''f'')]"

text \<open>Two adjacent declarations with unaligned operators, for the alignment rule.\<close>

definition aa_text :: string where
  "aa_text = joinLines [''const a = 1;'', ''const longName = 2;'']"

definition aa_source :: sourceCode where
  "aa_source =
     \<lparr>sc_text = aa_text,
      tokensAndComments =
        [tokenAt aa_text ''Keyword'' 0 5, tokenAt aa_text ''Identifier'' 6 7,
         tokenAt aa_text ''Punctuator'' 8 9, tokenAt aa_text ''Numeric'' 10 11,
         tokenAt aa_text ''Punctuator'' 11 12,
         tokenAt aa_text ''Keyword'' 13 18, tokenAt aa_text ''Identifier'' 19 27,
         tokenAt aa_text ''Punctuator'' 28 29, tokenAt aa_text ''Numeric'' 30 31,
         tokenAt aa_text ''Punctuator'' 31 32],
      ast = []\<rparr>"

definition declaratorAt :: "string \<Rightarrow> string \<Rightarrow> nat \<Rightarrow> nat \<Rightarrow> nat \<Rightarrow> nat \<Rightarrow> declarator" where
  "declaratorAt s kind i idEnd initStart j =
     node.extend (nodeAt s ''VariableDeclarator'' i j)
       (declarator.fields kind
          (node.extend (nodeAt s ''Identifier'' i idEnd) (binding.fields None))
          (Some (nodeAt s ''Literal'' initStart j)))"

definition aa_run :: "declarator list" where
  "aa_run = [declaratorAt aa_text ''const'' 6 7 10 11, declaratorAt aa_text ''const'' 19 27 30 31]"

text \<open>Sequence and record literals, for the collection-formatting rule.\<close>

definition punct :: "string \<Rightarrow> nat \<Rightarrow> token" where
  "punct s i = tokenAt s ''Punctuator'' i (i + 1)"

definition arrayAt :: "string \<Rightarrow> nat \<Rightarrow> nat \<Rightarrow> node option list \<Rightarrow> arrayExpression" where
  "arrayAt s i j els = node.extend (nodeAt s ''ArrayExpression'' i j) (arrayExpression.fields els)"

definition propertyAt :: "string \<Rightarrow> nat \<Rightarrow> nat \<Rightarrow> nat \<Rightarrow> nat \<Rightarrow> property" where
  "propertyAt s i keyEnd valueStart j =
     node.extend (nodeAt s ''Property'' i j)
       (property.fields (Some (nodeAt s ''Identifier'' i keyEnd))
                        (Some (nodeAt s ''Literal'' valueStart j)))"

definition objectAt :: "string \<Rightarrow> nat \<Rightarrow> nat \<Rightarrow> property list \<Rightarrow> objectExpression" where
  "objectAt s i j props = node.extend (nodeAt s ''ObjectExpression'' i j) (objectExpression.fields props)"

definition arr2_text :: string where
  "arr2_text = ''[1, 2]''"

definition arr2_source :: sourceCode where
  "arr2_source = \<lparr>sc_text = arr2_text,
     tokensAndComments = [punct arr2_text 0, tokenAt arr2_text ''Numeric'' 1 2, punct arr2_text 2,
                          tokenAt arr2_text ''Numeric'' 4 5, punct arr2_text 5],
     ast = []\<rparr>"

definition arr2 :: arrayExpression where
  "arr2 = arrayAt arr2_text 0 6 [Some (nodeAt arr2_text ''Literal'' 1 2), Some (nodeAt arr2_text ''Literal'' 4 5)]"

definition arr3_text :: string where
  "arr3_text = ''[1, 2, 3]''"

definition arr3_source :: sourceCode where
  "arr3_source = \<lparr>sc_text = arr3_text,
     tokensAndComments = [punct arr3_text 0, tokenAt arr3_text ''Numeric'' 1 2, punct arr3_text 2,
                          tokenAt arr3_text ''Numeric'' 4 5, punct arr3_text 5,
                          tokenAt arr3_text ''Numeric'' 7 8, punct arr3_text 8],
     ast = []\<rparr>"

definition arr3 :: arrayExpression where
  "arr3 = arrayAt arr3_text 0 9 [Some (nodeAt arr3_text ''Literal'' 1 2), Some (nodeAt arr3_text ''Literal'' 4 5),
                                 Some (nodeAt arr3_text ''Literal'' 7 8)]"

definition empty_text :: string where
  "empty_text = ''a_long_identifier_name_that_fills_the_line = [];''"

definition empty_source :: sourceCode where
  "empty_source = \<lparr>sc_text = empty_text,
     tokensAndComments = [tokenAt empty_text ''Identifier'' 0 42, punct empty_text 43,
                          punct empty_text 45, punct empty_text 46, punct empty_text 47],
     ast = []\<rparr>"

definition empty_array :: arrayExpression where
  "empty_array = arrayAt empty_text 45 47 []"

definition always_opts :: mf_options where
  "always_opts = mf_defaults\<lparr>multilineStyle := Always, maxLineLength := 40\<rparr>"

definition obj_missing_text :: string where
  "obj_missing_text = joinLines [''x = {'', ''      a: 1'', ''    };'']"

definition obj_missing_source :: sourceCode where
  "obj_missing_source = \<lparr>sc_text = obj_missing_text,
     tokensAndComments = [tokenAt obj_missing_text ''Identifier'' 0 1, punct obj_missing_text 2, punct obj_missing_text 4,
        tokenAt obj_missing_text ''Identifier'' 12 13, punct obj_missing_text 13, tokenAt obj_missing_text ''Numeric'' 15 16,
        punct obj_missing_text 21, punct obj_missing_text 22],
     ast = []\<rparr>"

definition obj_missing :: objectExpression where
  "obj_missing = objectAt obj_missing_text 4 22 [propertyAt obj_missing_text 12 13 15 16]"

definition obj_comma_text :: string where
  "obj_comma_text = joinLines [''x = {'', ''      a: 1,'', ''    };'']"

definition obj_comma_source :: sourceCode where
  "obj_comma_source = \<lparr>sc_text = obj_comma_text,
     tokensAndComments = [tokenAt obj_comma_text ''Identifier'' 0 1, punct obj_comma_text 2, punct obj_comma_text 4,
        tokenAt obj_comma_text ''Identifier'' 12 13, punct obj_comma_text 13, tokenAt obj_comma_text ''Numeric'' 15 16,
        punct obj_comma_text 16, punct obj_comma_text 22, punct obj_comma_text 23],
     ast = []\<rparr>"

definition obj_comma :: objectExpression where
  "obj_comma = objectAt obj_comma_text 4 23 [propertyAt obj_comma_text 12 13 15 16]"

definition obj_gap_text :: string where
  "obj_gap_text = joinLines [''x = {'', ''      a: 1 ,'', ''    };'']"

definition obj_gap_source :: sourceCode where
  "obj_gap_source = \<lparr>sc_text = obj_gap_text,
     tokensAndComments = [tokenAt obj_gap_text ''Identifier'' 0 1, punct obj_gap_text 2, punct obj_gap_text 4,
        tokenAt obj_gap_text ''Identifier'' 12 13, punct obj_gap_text 13, tokenAt obj_gap_text ''Numeric'' 15 16,
        punct obj_gap_text 17, punct obj_gap_text 23, punct obj_gap_text 24],
     ast = []\<rparr>"

definition obj_gap :: objectExpression where
  "obj_gap = objectAt obj_gap_text 4 24 [propertyAt obj_gap_text 12 13 15 16]"

definition obj_indent_text :: string where
  "obj_indent_text = joinLines [''x = {'', ''  a: 1'', ''};'']"

definition obj_indent_source :: sourceCode where
  "obj_indent_source = \<lparr>sc_text = obj_indent_text,
     tokensAndComments = [tokenAt obj_indent_text ''Identifier'' 0 1, punct obj_indent_text 2, punct obj_indent_text 4,
        tokenAt obj_indent_text ''Identifier'' 8 9, punct obj_indent_text 9, tokenAt obj_indent_text ''Numeric'' 11 12,
        punct obj_indent_text 13, punct obj_indent_text 14],
     ast = []\<rparr>"

definition obj_indent :: objectExpression where
  "obj_indent = objectAt obj_indent_text 4 14 [propertyAt obj_indent_text 8 9 11 12]"

definition empty_object_text :: string where
  "empty_object_text = ''a_long_identifier_name_that_fills_the_line = {};''"

definition empty_object_source :: sourceCode where
  "empty_object_source = \<lparr>sc_text = empty_object_text,
     tokensAndComments = [tokenAt empty_object_text ''Identifier'' 0 42, punct empty_object_text 43,
                          punct empty_object_text 45, punct empty_object_text 46,
                          punct empty_object_text 47],
     ast = []\<rparr>"

definition empty_object :: objectExpression where
  "empty_object = objectAt empty_object_text 45 47 []"

text \<open>The alignment sample after its offered fix has been applied, tokenized again.\<close>

definition aa_fixed_text :: string where
  "aa_fixed_text = joinLines [''const a              = 1;'', ''const longName = 2;'']"

definition aa_fixed_source :: sourceCode where
  "aa_fixed_source =
     \<lparr>sc_text = aa_fixed_text,
      tokensAndComments =
        [tokenAt aa_fixed_text ''Keyword'' 0 5, tokenAt aa_fixed_text ''Identifier'' 6 7,
         tokenAt aa_fixed_text ''Punctuator'' 21 22, tokenAt aa_fixed_text ''Numeric'' 23 24,
         tokenAt aa_fixed_text ''Punctuator'' 24 25,
         tokenAt aa_fixed_text ''Keyword'' 26 31, tokenAt aa_fixed_text ''Identifier'' 32 40,
         tokenAt aa_fixed_text ''Punctuator'' 41 42, tokenAt aa_fixed_text ''Numeric'' 43 44,
         tokenAt aa_fixed_text ''Punctuator'' 44 45],
      ast = []\<rparr>"

definition aa_fixed_run :: "declarator list" where
  "aa_fixed_run = [declaratorAt aa_fixed_text ''const'' 6 7 23 24,
                   declaratorAt aa_fixed_text ''const'' 32 40 43 44]"

text \<open>Record literals written on one line, with two and with three entries.\<close>

definition objl2_text :: string where
  "objl2_text = ''x = { a: 1, b: 2 }''"

definition objl2_source :: sourceCode where
  "objl2_source = \<lparr>sc_text = objl2_text,
     tokensAndComments = [tokenAt objl2_text ''Identifier'' 0 1, punct objl2_text 2,
        punct objl2_text 4,
        tokenAt objl2_text ''Identifier'' 6 7, punct objl2_text 7,
        tokenAt objl2_text ''Numeric'' 9 10, punct objl2_text 10,
        tokenAt objl2_text ''Identifier'' 12 13, punct objl2_text 13,
        tokenAt objl2_text ''Numeric'' 15 16, punct objl2_text 17],
     ast = []\<rparr>"

definition objl2 :: objectExpression where
  "objl2 = objectAt objl2_text 4 18
     [propertyAt objl2_text 6 7 9 10, propertyAt objl2_text 12 13 15 16]"

definition objl3_text :: string where
  "objl3_text = ''x = { a: 1, b: 2, c: 3 }''"

definition objl3_source :: sourceCode where
  "objl3_source = \<lparr>sc_text = objl3_text,
     tokensAndComments = [tokenAt objl3_text ''Identifier'' 0 1, punct objl3_text 2,
        punct objl3_text 4,
        tokenAt objl3_text ''Identifier'' 6 7, punct objl3_text 7,
        tokenAt objl3_text ''Numeric'' 9 10, punct objl3_text 10,
        tokenAt objl3_text ''Identifier'' 12 13, punct objl3_text 13,
        tokenAt objl3_text ''Numeric'' 15 16, punct objl3_text 16,
        tokenAt objl3_text ''Identifier'' 18 19, punct objl3_text 19,
        tokenAt objl3_text ''Numeric'' 21 22, punct objl3_text 23],
     ast = []\<rparr>"

definition objl3 :: objectExpression where
  "objl3 = objectAt objl3_text 4 24
     [propertyAt objl3_text 6 7 9 10, propertyAt objl3_text 12 13 15 16,
      propertyAt objl3_text 18 19 21 22]"

text \<open>The members of the class sample with their groups, and a class with the same two
  members in the configured order.\<close>

definition cl_members :: "(member \<times> group option) list" where
  "cl_members = [(cl_body ! 0, Some (defaultGroups ! 2)), (cl_body ! 1, Some (defaultGroups ! 1))]"

definition cl_ordered_text :: string where
  "cl_ordered_text = joinLines [''class B {'', ''  static f() {}'', ''  x = 1;'', ''}'']"

definition cl_ordered_body :: "member list" where
  "cl_ordered_body =
     [memberAt cl_ordered_text ''MethodDefinition'' 12 25 ''method'' True (Identifier ''f''),
      memberAt cl_ordered_text ''PropertyDefinition'' 28 34 [] False (Identifier ''x'')]"

definition cl_ordered_members :: "(member \<times> group option) list" where
  "cl_ordered_members = [(cl_ordered_body ! 0, Some (defaultGroups ! 1)),
                         (cl_ordered_body ! 1, Some (defaultGroups ! 2))]"

section \<open>Specification of the multiline threshold\<close>

text \<open>
  The threshold in the words of the specification, for a literal whose brackets are the
  tokens \<open>ft\<close> and \<open>lt\<close>: the single-line rendering is the text from the opening to the
  closing bracket with each newline and the white space after it collapsed to one space;
  it exceeds the limit when the starting column plus its length is greater than
  \<^verbatim>\<open>maxLineLength\<close>.  The literal should be multiline when it has at least \<^verbatim>\<open>minItems\<close>
  items, or the rendering exceeds the limit, or the style is \<^verbatim>\<open>always\<close>.
\<close>

definition singleLineRendering :: "sourceCode \<Rightarrow> token \<Rightarrow> token \<Rightarrow> string" where
  "singleLineRendering sc ft lt =
     collapseNewlines (substring (sc_text sc) (fst (nrange ft)) (snd (nrange lt)))"

definition renderingExceeds :: "mf_options \<Rightarrow> sourceCode \<Rightarrow> token \<Rightarrow> token \<Rightarrow> bool" where
  "renderingExceeds opts sc ft lt =
     (column (loc_start (loc ft)) + int (length (singleLineRendering sc ft lt))
        > int (maxLineLength opts))"

definition shouldBeMultilineSpec ::
  "mf_options \<Rightarrow> sourceCode \<Rightarrow> token \<Rightarrow> token \<Rightarrow> nat \<Rightarrow> bool" where
  "shouldBeMultilineSpec opts sc ft lt itemCount =
     (itemCount \<ge> minItems opts \<or> renderingExceeds opts sc ft lt \<or>
      multilineStyle opts = Always)"

definition rendersOnOneLine :: "token \<Rightarrow> token \<Rightarrow> bool" where
  "rendersOnOneLine ft lt = (line (loc_start (loc ft)) = line (loc_start (loc lt)))"

section \<open>Specification of the order check\<close>

text \<open>
  The order check in the words of the specification: among the members matched to a
  group, in source order, a member is in violation when the order value of its group is
  smaller than that of the previous matched member's group; the diagnostic names the
  previous group as expected and the member's own group as actual.
\<close>

definition matchedMembers :: "(member \<times> group option) list \<Rightarrow> (member \<times> group) list" where
  "matchedMembers members =
     List.map_filter (\<lambda>(n, g). case g of None \<Rightarrow> None | Some grp \<Rightarrow> Some (n, grp)) members"

fun orderViolations :: "(member \<times> group) list \<Rightarrow> diagnostic list" where
  "orderViolations (x # y # rest) =
     (if g_order (snd y) < g_order (snd x)
      then orderReport (fst y) (snd x) (snd y) # orderViolations (y # rest)
      else orderViolations (y # rest))"
| "orderViolations ms = []"

section \<open>Alignment of assignment operators\<close>

text \<open>
  The replacement text of a declarator without a type annotation: the name, padded with
  spaces to the length of the target column, then the operator and the initializer.  The
  operator therefore stands at offset \<open>target\<close> of the replacement text, which starts at
  the declarator's own column, not at column 0.
\<close>

lemma getFixedDeclaration_untyped:
  assumes "typeAnnotation (decl_id d) = None"
    and "getEqualsColumn sc d = Inr (Some c)" and "c \<noteq> 0"
    and "decl_init d = Some i"
    and "int (length (getText sc (decl_id d))) \<le> target"
  shows "getFixedDeclaration sc d target targetType =
           Inr (getText sc (decl_id d)
                @ replicate (nat (target - int (length (getText sc (decl_id d))))) (CHR '' '')
                @ ''= '' @ getText sc i)"
    and "int (length (getText sc (decl_id d)
                @ replicate (nat (target - int (length (getText sc (decl_id d))))) (CHR '' '')))
           = target"
  using assms
  by (auto simp: getFixedDeclaration_def Let_def bindE_def hasTypeAnnotation_def repeat_def
        split: option.splits)

text \<open>
  Claim C1.  For a qualifying run the target column is the maximum of the operator
  columns and every declarator whose column differs is reported; the claim goes on to
  say that after the offered fix the operator stands in the target column, so that the
  rule reports nothing when run again.  The code does not do that.  In the file
  \<^verbatim>\<open>const a = 1;\<close> / \<^verbatim>\<open>const longName = 2;\<close> the operators stand in columns 8 and 15,
  the target is 15 and the first declarator is reported.  The fix pads the name to the
  target column counted from the start of the declarator, not from the start of the
  line, so the operator lands in column 21; run again on the fixed file, the rule
  reports the second declarator.
\<close>

theorem alignment_fix_misses_target_column:
  "getMaxEqualsColumn aa_source aa_run = Inr (Some 15) \<and>
   mapE (getEqualsColumn aa_source) aa_run = Inr [Some 8, Some 15] \<and>
   (case checkAlignment aa_defaults aa_source aa_run of
      Inr [d] \<Rightarrow>
        d_node d = node.truncate (aa_run ! 0) \<and> messageId d = ''misalignedAssignment'' \<and>
        (case d_fix d of
           Some (Inr f) \<Rightarrow>
             fix_range f = (6, 11) \<and> fix_text f = ''a              = 1'' \<and>
             applyFix aa_text f = aa_fixed_text
         | _ \<Rightarrow> False)
    | _ \<Rightarrow> False) \<and>
   mapE (getEqualsColumn aa_fixed_source) aa_fixed_run = Inr [Some 21, Some 15] \<and>
   (case checkAlignment aa_defaults aa_fixed_source aa_fixed_run of
      Inr [d] \<Rightarrow>
        d_node d = node.truncate (aa_fixed_run ! 1) \<and> messageId d = ''misalignedAssignment''
    | _ \<Rightarrow> False)"
  by code_simp

section \<open>Blank-line arithmetic\<close>

text \<open>
  Claim C2.  For two anchors \<open>a\<close> and \<open>b\<close> where \<open>b\<close> starts on a later line than \<open>a\<close>
  ends, the blank-line count is \<open>b\<close>'s start line minus \<open>a\<close>'s end line minus 1; it is
  0 when \<open>b\<close> starts on the line right after the end of \<open>a\<close>, and it is never negative.
\<close>

theorem blank_line_arithmetic:
  "line (loc_end (loc a)) < line (loc_start (loc b)) \<Longrightarrow>
     getBlankLinesBetween a b = line (loc_start (loc b)) - line (loc_end (loc a)) - 1 \<and>
     (line (loc_start (loc b)) = line (loc_end (loc a)) + 1 \<longrightarrow> getBlankLinesBetween a b = 0) \<and>
     0 \<le> getBlankLinesBetween a b"
  by (simp add: getBlankLinesBetween_def Let_def)

text \<open>Two functions on consecutive lines have no blank line between them.\<close>

theorem blank_line_arithmetic_witness:
  "line (loc_end (loc (bp_body ! 0))) = 1 \<and> line (loc_start (loc (bp_body ! 1))) = 2 \<and>
   getBlankLinesBetween (bp_body ! 0) (bp_body ! 1) = 0"
proof -
  have e: "line (loc_end (loc (bp_body ! 0))) = 1" by code_simp
  have s: "line (loc_start (loc (bp_body ! 1))) = 2" by code_simp
  have "line (loc_end (loc (bp_body ! 0))) < line (loc_start (loc (bp_body ! 1)))"
    using e s by simp
  from blank_line_arithmetic [OF this] e s show ?thesis by simp
qed

section \<open>The multiline threshold of collections\<close>

text \<open>With both brackets present, the three queries of the rule compute what the
  specification says.\<close>

lemma bracket_facts:
  assumes "getFirstToken sc n = Some ft" "getLastToken sc n = Some lt"
  shows "wouldExceedMaxLineLength opts sc n = Inr (renderingExceeds opts sc ft lt)"
    and "isMultiline sc n = Inr (\<not> rendersOnOneLine ft lt)"
    and "shouldBeMultiline opts sc n k = Inr (shouldBeMultilineSpec opts sc ft lt k)"
  using assms
  by (auto simp: wouldExceedMaxLineLength_def isMultiline_def shouldBeMultiline_def
        firstTokenE_def lastTokenE_def bindE_def Let_def renderingExceeds_def
        singleLineRendering_def rendersOnOneLine_def shouldBeMultilineSpec_def)

text \<open>A literal on one line with at least one item gets the single diagnostic
  \<^verbatim>\<open>singleLineToMultiline\<close> or none at all.\<close>

lemma process_object_one_line:
  assumes "getFirstToken sc n = Some ft" "getLastToken sc n = Some lt" "properties n \<noteq> []"
    "rendersOnOneLine ft lt"
  shows "processObjectExpression opts sc n =
     (if shouldBeMultilineSpec opts sc ft lt (length (properties n)) \<and> multilineStyle opts \<noteq> Never
      then Inr [simpleReport n ''singleLineToMultiline''
                   [(''count'', Num (int (length (properties n))))]
                   (reconstructionFix opts sc n (properties n))]
      else Inr [])"
  using assms(3,4) bracket_facts [OF assms(1,2)]
  by (simp add: processObjectExpression_def bindE_def)

lemma process_array_one_line:
  assumes "getFirstToken sc n = Some ft" "getLastToken sc n = Some lt" "elements n \<noteq> []"
    "rendersOnOneLine ft lt"
  shows "processArrayExpression opts sc n =
     (if shouldBeMultilineSpec opts sc ft lt (length (elements n)) \<and> multilineStyle opts \<noteq> Never
      then Inr [simpleReport n ''singleLineToMultiline''
                   [(''count'', Num (int (length (elements n))))]
                   (reconstructionFix opts sc n (map elementItem (List.map_filter id (elements n))))]
      else Inr [])"
  using assms(3,4) bracket_facts [OF assms(1,2)]
  by (simp add: processArrayExpression_def bindE_def)

text \<open>
  Claim C3, as amended.  For a record or sequence literal with at least one item and
  both brackets: the rule's decision that it should be multiline holds exactly when
  the item count is at least \<^verbatim>\<open>minItems\<close>, or the single-line rendering measured from the
  starting column exceeds \<^verbatim>\<open>maxLineLength\<close>, or the style is \<^verbatim>\<open>always\<close>; when it holds, the
  literal renders on one line and the style is not \<^verbatim>\<open>never\<close>, exactly one diagnostic
  \<^verbatim>\<open>singleLineToMultiline\<close> is reported, at the literal; and a one-line literal with
  exactly \<^verbatim>\<open>minItems - 1\<close> items under the length limit gets no diagnostic when the
  style is not \<^verbatim>\<open>always\<close>.
\<close>

theorem collection_threshold:
  "(getFirstToken sc obj = Some ft \<and> getLastToken sc obj = Some lt \<and> properties obj \<noteq> [] \<longrightarrow>
      shouldBeMultiline opts sc obj (length (properties obj))
        = Inr (shouldBeMultilineSpec opts sc ft lt (length (properties obj))) \<and>
      (shouldBeMultilineSpec opts sc ft lt (length (properties obj)) \<and> rendersOnOneLine ft lt \<and>
       multilineStyle opts \<noteq> Never \<longrightarrow>
         (\<exists>d. processObjectExpression opts sc obj = Inr [d] \<and>
              messageId d = ''singleLineToMultiline'' \<and> d_node d = node.truncate obj)) \<and>
      (rendersOnOneLine ft lt \<and> length (properties obj) = minItems opts - 1 \<and>
       \<not> renderingExceeds opts sc ft lt \<and> multilineStyle opts \<noteq> Always \<longrightarrow>
         processObjectExpression opts sc obj = Inr [])) \<and>
   (getFirstToken sc arr = Some ft' \<and> getLastToken sc arr = Some lt' \<and> elements arr \<noteq> [] \<longrightarrow>
      shouldBeMultiline opts sc arr (length (elements arr))
        = Inr (shouldBeMultilineSpec opts sc ft' lt' (length (elements arr))) \<and>
      (shouldBeMultilineSpec opts sc ft' lt' (length (elements arr)) \<and> rendersOnOneLine ft' lt' \<and>
       multilineStyle opts \<noteq> Never \<longrightarrow>
         (\<exists>d. processArrayExpression opts sc arr = Inr [d] \<and>
              messageId d = ''singleLineToMultiline'' \<and> d_node d = node.truncate arr)) \<and>
      (rendersOnOneLine ft' lt' \<and> length (elements arr) = minItems opts - 1 \<and>
       \<not> renderingExceeds opts sc ft' lt' \<and> multilineStyle opts \<noteq> Always \<longrightarrow>
         processArrayExpression opts sc arr = Inr []))"
proof -
  have o: "shouldBeMultiline opts sc obj (length (properties obj))
        = Inr (shouldBeMultilineSpec opts sc ft lt (length (properties obj))) \<and>
      (shouldBeMultilineSpec opts sc ft lt (length (properties obj)) \<and> rendersOnOneLine ft lt \<and>
       multilineStyle opts \<noteq> Never \<longrightarrow>
         (\<exists>d. processObjectExpression opts sc obj = Inr [d] \<and>
              messageId d = ''singleLineToMultiline'' \<and> d_node d = node.truncate obj)) \<and>
      (rendersOnOneLine ft lt \<and> length (properties obj) = minItems opts - 1 \<and>
       \<not> renderingExceeds opts sc ft lt \<and> multilineStyle opts \<noteq> Always \<longrightarrow>
         processObjectExpression opts sc obj = Inr [])"
    if h: "getFirstToken sc obj = Some ft" "getLastToken sc obj = Some lt" "properties obj \<noteq> []"
  proof (intro conjI impI)
    show "shouldBeMultiline opts sc obj (length (properties obj))
        = Inr (shouldBeMultilineSpec opts sc ft lt (length (properties obj)))"
      by (rule bracket_facts(3) [OF h(1,2)])
  next
    assume "shouldBeMultilineSpec opts sc ft lt (length (properties obj)) \<and> rendersOnOneLine ft lt \<and>
       multilineStyle opts \<noteq> Never"
    then show "\<exists>d. processObjectExpression opts sc obj = Inr [d] \<and>
              messageId d = ''singleLineToMultiline'' \<and> d_node d = node.truncate obj"
      using process_object_one_line [OF h(1,2,3), of opts] by (simp add: simpleReport_def)
  next
    assume a: "rendersOnOneLine ft lt \<and> length (properties obj) = minItems opts - 1 \<and>
       \<not> renderingExceeds opts sc ft lt \<and> multilineStyle opts \<noteq> Always"
    with h(3) have "\<not> minItems opts \<le> length (properties obj)" by (cases "properties obj") auto
    with a have "\<not> shouldBeMultilineSpec opts sc ft lt (length (properties obj))"
      by (simp add: shouldBeMultilineSpec_def)
    with a show "processObjectExpression opts sc obj = Inr []"
      using process_object_one_line [OF h(1,2,3), of opts] by simp
  qed
  have a: "shouldBeMultiline opts sc arr (length (elements arr))
        = Inr (shouldBeMultilineSpec opts sc ft' lt' (length (elements arr))) \<and>
      (shouldBeMultilineSpec opts sc ft' lt' (length (elements arr)) \<and> rendersOnOneLine ft' lt' \<and>
       multilineStyle opts \<noteq> Never \<longrightarrow>
         (\<exists>d. processArrayExpression opts sc arr = Inr [d] \<and>
              messageId d = ''singleLineToMultiline'' \<and> d_node d = node.truncate arr)) \<and>
      (rendersOnOneLine ft' lt' \<and> length (elements arr) = minItems opts - 1 \<and>
       \<not> renderingExceeds opts sc ft' lt' \<and> multilineStyle opts \<noteq> Always \<longrightarrow>
         processArrayExpression opts sc arr = Inr [])"
    if h: "getFirstToken sc arr = Some ft'" "getLastToken sc arr = Some lt'" "elements arr \<noteq> []"
  proof (intro conjI impI)
    show "shouldBeMultiline opts sc arr (length (elements arr))
        = Inr (shouldBeMultilineSpec opts sc ft' lt' (length (elements arr)))"
      by (rule bracket_facts(3) [OF h(1,2)])
  next
    assume "shouldBeMultilineSpec opts sc ft' lt' (length (elements arr)) \<and> rendersOnOneLine ft' lt' \<and>
       multilineStyle opts \<noteq> Never"
    then show "\<exists>d. processArrayExpression opts sc arr = Inr [d] \<and>
              messageId d = ''singleLineToMultiline'' \<and> d_node d = node.truncate arr"
      using process_array_one_line [OF h(1,2,3), of opts] by (simp add: simpleReport_def)
  next
    assume a: "rendersOnOneLine ft' lt' \<and> length (elements arr) = minItems opts - 1 \<and>
       \<not> renderingExceeds opts sc ft' lt' \<and> multilineStyle opts \<noteq> Always"
    with h(3) have "\<not> minItems opts \<le> length (elements arr)" by (cases "elements arr") auto
    with a have "\<not> shouldBeMultilineSpec opts sc ft' lt' (length (elements arr))"
      by (simp add: shouldBeMultilineSpec_def)
    with a show "processArrayExpression opts sc arr = Inr []"
      using process_array_one_line [OF h(1,2,3), of opts] by simp
  qed
  from o a show ?thesis by blast
qed

text \<open>One-line literals of three items are reported and of two items are not, under
  the default options.\<close>

theorem collection_threshold_witness:
  "shouldBeMultilineSpec mf_defaults objl3_source (punct objl3_text 4) (punct objl3_text 23) 3 \<and>
   (\<exists>d. processObjectExpression mf_defaults objl3_source objl3 = Inr [d] \<and>
        messageId d = ''singleLineToMultiline'') \<and>
   \<not> renderingExceeds mf_defaults objl2_source (punct objl2_text 4) (punct objl2_text 17) \<and>
   processObjectExpression mf_defaults objl2_source objl2 = Inr [] \<and>
   shouldBeMultilineSpec mf_defaults arr3_source (punct arr3_text 0) (punct arr3_text 8) 3 \<and>
   (\<exists>d. processArrayExpression mf_defaults arr3_source arr3 = Inr [d] \<and>
        messageId d = ''singleLineToMultiline'') \<and>
   \<not> renderingExceeds mf_defaults arr2_source (punct arr2_text 0) (punct arr2_text 5) \<and>
   processArrayExpression mf_defaults arr2_source arr2 = Inr []"
proof -
  have o3: "getFirstToken objl3_source objl3 = Some (punct objl3_text 4)"
    "getLastToken objl3_source objl3 = Some (punct objl3_text 23)"
    "properties objl3 \<noteq> []" "length (properties objl3) = 3"
    "shouldBeMultilineSpec mf_defaults objl3_source (punct objl3_text 4) (punct objl3_text 23) 3"
    "rendersOnOneLine (punct objl3_text 4) (punct objl3_text 23)"
    by code_simp+
  have o2: "getFirstToken objl2_source objl2 = Some (punct objl2_text 4)"
    "getLastToken objl2_source objl2 = Some (punct objl2_text 17)"
    "properties objl2 \<noteq> []" "length (properties objl2) = 2"
    "\<not> renderingExceeds mf_defaults objl2_source (punct objl2_text 4) (punct objl2_text 17)"
    "rendersOnOneLine (punct objl2_text 4) (punct objl2_text 17)"
    by code_simp+
  have a3: "getFirstToken arr3_source arr3 = Some (punct arr3_text 0)"
    "getLastToken arr3_source arr3 = Some (punct arr3_text 8)"
    "elements arr3 \<noteq> []" "length (elements arr3) = 3"
    "shouldBeMultilineSpec mf_defaults arr3_source (punct arr3_text 0) (punct arr3_text 8) 3"
    "rendersOnOneLine (punct arr3_text 0) (punct arr3_text 8)"
    by code_simp+
  have a2: "getFirstToken arr2_source arr2 = Some (punct arr2_text 0)"
    "getLastToken arr2_source arr2 = Some (punct arr2_text 5)"
    "elements arr2 \<noteq> []" "length (elements arr2) = 2"
    "\<not> renderingExceeds mf_defaults arr2_source (punct arr2_text 0) (punct arr2_text 5)"
    "rendersOnOneLine (punct arr2_text 0) (punct arr2_text 5)"
    by code_simp+
  have d: "minItems mf_defaults = 3" "multilineStyle mf_defaults = Consistent"
    by (simp_all add: mf_defaults_def)
  have r1: "\<exists>d. processObjectExpression mf_defaults objl3_source objl3 = Inr [d] \<and>
        messageId d = ''singleLineToMultiline''"
    using collection_threshold [where sc = objl3_source and obj = objl3
        and ft = "punct objl3_text 4" and lt = "punct objl3_text 23" and opts = mf_defaults, THEN conjunct1] o3 d by auto
  have r2: "processObjectExpression mf_defaults objl2_source objl2 = Inr []"
    using collection_threshold [where sc = objl2_source and obj = objl2
        and ft = "punct objl2_text 4" and lt = "punct objl2_text 17" and opts = mf_defaults, THEN conjunct1] o2 d by simp
  have r3: "\<exists>d. processArrayExpression mf_defaults arr3_source arr3 = Inr [d] \<and>
        messageId d = ''singleLineToMultiline''"
    using collection_threshold [where sc = arr3_source and arr = arr3
        and ft' = "punct arr3_text 0" and lt' = "punct arr3_text 8" and opts = mf_defaults, THEN conjunct2] a3 d by auto
  have r4: "processArrayExpression mf_defaults arr2_source arr2 = Inr []"
    using collection_threshold [where sc = arr2_source and arr = arr2
        and ft' = "punct arr2_text 0" and lt' = "punct arr2_text 5" and opts = mf_defaults, THEN conjunct2] a2 d by simp
  from o3(5) o2(5) a3(5) a2(5) r1 r2 r3 r4 show ?thesis by blast
qed

text \<open>
  The claim as stated fails in two places.  An empty literal that should be multiline
  by the stated predicate (style \<^verbatim>\<open>always\<close>, and a rendering beyond the limit), on one
  line, gets no diagnostic.  A one-line literal of \<^verbatim>\<open>minItems - 1\<close> short items is
  reported when the style is \<^verbatim>\<open>always\<close>.
\<close>

theorem collection_threshold_counterexample:
  "elements empty_array = [] \<and>
   getFirstToken empty_source empty_array = Some (punct empty_text 45) \<and>
   getLastToken empty_source empty_array = Some (punct empty_text 46) \<and>
   shouldBeMultilineSpec always_opts empty_source (punct empty_text 45) (punct empty_text 46) 0 \<and>
   rendersOnOneLine (punct empty_text 45) (punct empty_text 46) \<and>
   multilineStyle always_opts \<noteq> Never \<and>
   processArrayExpression always_opts empty_source empty_array = Inr [] \<and>
   length (elements arr2) = minItems mf_defaults - 1 \<and>
   rendersOnOneLine (punct arr2_text 0) (punct arr2_text 5) \<and>
   \<not> renderingExceeds (mf_defaults\<lparr>multilineStyle := Always\<rparr>) arr2_source
        (punct arr2_text 0) (punct arr2_text 5) \<and>
   (case processArrayExpression (mf_defaults\<lparr>multilineStyle := Always\<rparr>) arr2_source arr2 of
      Inr [d] \<Rightarrow> messageId d = ''singleLineToMultiline''
    | _ \<Rightarrow> False)"
  by code_simp

section \<open>Documentation-block detection\<close>

text \<open>The pattern test succeeds exactly when the pattern matches at the start of some
  suffix of the text.\<close>

lemma hasDocstringPatterns_iff:
  "hasDocstringPatterns s \<longleftrightarrow> (\<exists>p q. s = p @ q \<and> matchHere q)"
proof (induction s)
  case Nil
  then show ?case by simp
next
  case (Cons c cs)
  show ?case
  proof
    assume "hasDocstringPatterns (c # cs)"
    then consider "matchHere (c # cs)" | "hasDocstringPatterns cs" by auto
    then show "\<exists>p q. c # cs = p @ q \<and> matchHere q"
    proof cases
      case 1
      then have "c # cs = [] @ (c # cs) \<and> matchHere (c # cs)" by simp
      then show ?thesis by blast
    next
      case 2
      with Cons.IH obtain p q where "cs = p @ q" "matchHere q" by blast
      then have "c # cs = (c # p) @ q \<and> matchHere q" by simp
      then show ?thesis by blast
    qed
  next
    assume "\<exists>p q. c # cs = p @ q \<and> matchHere q"
    then obtain p q where pq: "c # cs = p @ q" "matchHere q" by blast
    show "hasDocstringPatterns (c # cs)"
    proof (cases p)
      case Nil
      with pq show ?thesis by auto
    next
      case (Cons a p')
      with pq have "cs = p' @ q" by simp
      with pq(2) Cons.IH have "hasDocstringPatterns cs" by blast
      then show ?thesis by simp
    qed
  qed
qed

text \<open>The first alternative matches somewhere exactly when the text holds an at-sign
  directly followed by a word character; a literal word matches somewhere exactly when
  it is a substring.\<close>

lemma matchTag_somewhere:
  "(\<exists>p q. s = p @ q \<and> matchTag q) \<longleftrightarrow>
   (\<exists>a w b. s = a @ CHR ''@'' # w # b \<and> isWordChar w)"
proof
  assume "\<exists>p q. s = p @ q \<and> matchTag q"
  then obtain p q where pq: "s = p @ q" "matchTag q" by blast
  from pq(2) obtain w r where d: "dropWhile isWhiteSpace q = CHR ''@'' # w # r" "isWordChar w"
    by (auto simp: matchTag_def split: list.splits)
  have "q = takeWhile isWhiteSpace q @ dropWhile isWhiteSpace q" by simp
  with d(1) have "q = takeWhile isWhiteSpace q @ CHR ''@'' # w # r" by simp
  with pq(1) have "s = (p @ takeWhile isWhiteSpace q) @ CHR ''@'' # w # r" by simp
  with d(2) show "\<exists>a w b. s = a @ CHR ''@'' # w # b \<and> isWordChar w" by blast
next
  assume "\<exists>a w b. s = a @ CHR ''@'' # w # b \<and> isWordChar w"
  then obtain a w b where awb: "s = a @ CHR ''@'' # w # b" "isWordChar w" by blast
  have "\<not> isWhiteSpace (CHR ''@'')" by (simp add: isWhiteSpace_def)
  then have "matchTag (CHR ''@'' # w # b)" using awb(2) by (simp add: matchTag_def)
  with awb(1) show "\<exists>p q. s = p @ q \<and> matchTag q" by blast
qed

lemma word_somewhere:
  "(\<exists>p q. s = p @ q \<and> prefix w q) \<longleftrightarrow> sublist w s"
  by (auto simp: prefix_def sublist_def)

lemma hasDocstringPatterns_spec:
  "hasDocstringPatterns s \<longleftrightarrow>
     ((\<exists>a w b. s = a @ CHR ''@'' # w # b \<and> isWordChar w) \<or>
      sublist ''param'' s \<or> sublist ''return'' s \<or> sublist ''description'' s \<or>
      sublist ''example'' s \<or> sublist ''author'' s)"
proof -
  have "hasDocstringPatterns s \<longleftrightarrow>
     ((\<exists>p q. s = p @ q \<and> matchTag q) \<or>
      (\<exists>p q. s = p @ q \<and> prefix ''param'' q) \<or>
      (\<exists>p q. s = p @ q \<and> prefix ''return'' q) \<or>
      (\<exists>p q. s = p @ q \<and> prefix ''description'' q) \<or>
      (\<exists>p q. s = p @ q \<and> prefix ''example'' q) \<or>
      (\<exists>p q. s = p @ q \<and> prefix ''author'' q))"
    unfolding hasDocstringPatterns_iff matchHere_def docstringWords_def by auto
  then show ?thesis
    unfolding matchTag_somewhere word_somewhere .
qed

text \<open>
  Claim C4, as amended.  A comment is classified as a documentation block if and only
  if it is a block comment whose text contains a newline, or an at-sign directly followed
  by a word character, or one of the words param, return, description, example, author
  as a substring in exactly this (lower-case) spelling.
\<close>

theorem isDocstring_case_sensitive:
  "isDocstring c \<longleftrightarrow>
     ntype c = ''Block'' \<and>
     (NL \<in> set (tvalue c) \<or>
      (\<exists>a w b. tvalue c = a @ CHR ''@'' # w # b \<and> isWordChar w) \<or>
      sublist ''param'' (tvalue c) \<or> sublist ''return'' (tvalue c) \<or>
      sublist ''description'' (tvalue c) \<or> sublist ''example'' (tvalue c) \<or>
      sublist ''author'' (tvalue c))"
  unfolding isDocstring_def Let_def hasDocstringPatterns_spec by simp

text \<open>A one-line block comment with the word \<^verbatim>\<open>param\<close> is a documentation block; the
  same text in a line comment is not.\<close>

theorem isDocstring_case_sensitive_witness:
  "sublist ''param'' (tvalue (blockComment '' param x '')) \<and>
   isDocstring (blockComment '' param x '') \<and>
   \<not> isDocstring ((blockComment '' param x '')\<lparr>ntype := ''Line''\<rparr>)"
proof -
  have s: "sublist ''param'' (tvalue (blockComment '' param x ''))" by code_simp
  have t: "ntype (blockComment '' param x '') = ''Block''" by (simp add: blockComment_def)
  have "isDocstring (blockComment '' param x '')"
    using s t isDocstring_case_sensitive [of "blockComment '' param x ''"] by simp
  moreover have "\<not> isDocstring ((blockComment '' param x '')\<lparr>ntype := ''Line''\<rparr>)"
    using isDocstring_case_sensitive [of "(blockComment '' param x '')\<lparr>ntype := ''Line''\<rparr>"]
    by simp
  ultimately show ?thesis using s by simp
qed

text \<open>The letter case of the keyword changes the result: the upper-case spelling of
  the same comment is not a documentation block.\<close>

theorem isDocstring_case_counterexample:
  "isDocstring (blockComment '' param x '') \<and> \<not> isDocstring (blockComment '' PARAM x '')"
  by code_simp

section \<open>Statement spacing between statements of one category\<close>

text \<open>
  Claim C5, as amended.  With \<^verbatim>\<open>skipImportGroups\<close> enabled, the before check of an import
  declaration reports nothing when the node found at the start of its nearest preceding
  non-comment token is an import declaration, and the after check reports nothing when
  the node found at the start of its nearest following non-comment token is one.  For a
  node that is not an import declaration the option changes nothing: the checks between
  statements of any other category run as without it.
\<close>

theorem import_group_exemption:
  "(skipImportGroups opts \<and> isImport n \<and> getPrevNonCommentToken sc n = Some t \<and>
    getNodeByRangeIndex sc (fst (nrange t)) = Some p \<and> isImport p
      \<longrightarrow> checkLinesBefore opts sc n required nodeType = []) \<and>
   (skipImportGroups opts \<and> isImport n \<and> getNextNonCommentToken sc n = Some t' \<and>
    getNodeByRangeIndex sc (fst (nrange t')) = Some p' \<and> isImport p'
      \<longrightarrow> checkLinesAfter opts sc n required nodeType = []) \<and>
   (\<not> isImport n \<longrightarrow>
      checkLinesBefore (opts\<lparr>skipImportGroups := b\<rparr>) sc n required nodeType
        = checkLinesBefore opts sc n required nodeType \<and>
      checkLinesAfter (opts\<lparr>skipImportGroups := b\<rparr>) sc n required nodeType
        = checkLinesAfter opts sc n required nodeType)"
  by (simp add: checkLinesBefore_def checkLinesAfter_def Let_def)

text \<open>Two import declarations on consecutive lines are exempt; for an export declaration
  the option makes no difference.\<close>

theorem import_group_exemption_witness:
  "skipImportGroups cls_defaults \<and>
   isImport (topLevel im_body (im_body ! 1)) \<and>
   getPrevNonCommentToken im_source (topLevel im_body (im_body ! 1))
     = Some (tokenAt im_text ''Punctuator'' 10 11) \<and>
   getNodeByRangeIndex im_source 10 = Some (im_body ! 0) \<and>
   isImport (im_body ! 0) \<and>
   checkLinesBefore cls_defaults im_source (topLevel im_body (im_body ! 1)) 1
     ''import declaration'' = [] \<and>
   getNextNonCommentToken im_source (topLevel im_body (im_body ! 0))
     = Some (tokenAt im_text ''Keyword'' 12 18) \<and>
   getNodeByRangeIndex im_source 12 = Some (im_body ! 1) \<and>
   checkLinesAfter cls_defaults im_source (topLevel im_body (im_body ! 0)) 1
     ''import declaration'' = [] \<and>
   \<not> isImport (topLevel ex_body (ex_body ! 1)) \<and>
   checkLinesBefore (cls_defaults\<lparr>skipImportGroups := False\<rparr>) ex_source
       (topLevel ex_body (ex_body ! 1)) 1 ''export declaration''
     = checkLinesBefore cls_defaults ex_source (topLevel ex_body (ex_body ! 1)) 1
         ''export declaration''"
proof -
  have h: "skipImportGroups cls_defaults"
    "isImport (topLevel im_body (im_body ! 1))" "isImport (topLevel im_body (im_body ! 0))"
    "getPrevNonCommentToken im_source (topLevel im_body (im_body ! 1))
       = Some (tokenAt im_text ''Punctuator'' 10 11)"
    "getNodeByRangeIndex im_source 10 = Some (im_body ! 0)"
    "isImport (im_body ! 0)" "isImport (im_body ! 1)"
    "getNextNonCommentToken im_source (topLevel im_body (im_body ! 0))
       = Some (tokenAt im_text ''Keyword'' 12 18)"
    "getNodeByRangeIndex im_source 12 = Some (im_body ! 1)"
    "\<not> isImport (topLevel ex_body (ex_body ! 1))"
    "fst (nrange (tokenAt im_text ''Punctuator'' 10 11)) = 10"
    "fst (nrange (tokenAt im_text ''Keyword'' 12 18)) = 12"
    by code_simp+
  have b: "checkLinesBefore cls_defaults im_source (topLevel im_body (im_body ! 1)) 1
     ''import declaration'' = []"
    using import_group_exemption [where opts = cls_defaults
        and n = "topLevel im_body (im_body ! 1)" and sc = im_source
        and t = "tokenAt im_text ''Punctuator'' 10 11" and p = "im_body ! 0"
        and required = 1 and nodeType = "''import declaration''"] h
    by simp
  have a: "checkLinesAfter cls_defaults im_source (topLevel im_body (im_body ! 0)) 1
     ''import declaration'' = []"
    using import_group_exemption [where opts = cls_defaults
        and n = "topLevel im_body (im_body ! 0)" and sc = im_source
        and t' = "tokenAt im_text ''Keyword'' 12 18" and p' = "im_body ! 1"
        and required = 1 and nodeType = "''import declaration''"] h
    by simp
  have e: "checkLinesBefore (cls_defaults\<lparr>skipImportGroups := False\<rparr>) ex_source
       (topLevel ex_body (ex_body ! 1)) 1 ''export declaration''
     = checkLinesBefore cls_defaults ex_source (topLevel ex_body (ex_body ! 1)) 1
         ''export declaration''"
    using import_group_exemption [where opts = cls_defaults
        and n = "topLevel ex_body (ex_body ! 1)" and sc = ex_source
        and required = 1 and nodeType = "''export declaration''" and b = False] h(10)
    by simp
  from h a b e show ?thesis by simp
qed

text \<open>Two export declarations on consecutive lines, with \<^verbatim>\<open>skipImportGroups\<close> enabled:
  the second is reported by the before check and the first by the after check.\<close>

theorem same_category_exemption_counterexample:
  "skipImportGroups cls_defaults \<and>
   isExport (ex_body ! 0) \<and> isExport (ex_body ! 1) \<and>
   getBlankLinesBetween (ex_body ! 0) (ex_body ! 1) = 0 \<and>
   (case cls_visit cls_defaults ex_source (topLevel ex_body (ex_body ! 1)) of
      [d] \<Rightarrow> messageId d = ''missingLinesBefore'' \<and> d_node d = ex_body ! 1
    | _ \<Rightarrow> False) \<and>
   (case cls_visit cls_defaults ex_source (topLevel ex_body (ex_body ! 0)) of
      [d] \<Rightarrow> messageId d = ''missingLinesAfter'' \<and> d_node d = ex_body ! 0
    | _ \<Rightarrow> False)"
  by code_simp

section \<open>Padding between root-level blocks\<close>




section \<open>Monotone group order of class members\<close>

lemma matchedMembers_simps:
  "matchedMembers [] = []"
  "matchedMembers ((n, None) # ms) = matchedMembers ms"
  "matchedMembers ((n, Some g) # ms) = (n, g) # matchedMembers ms"
  by (simp_all add: matchedMembers_def List.map_filter_simps)

text \<open>Once a matched member has been seen, the loop reports the violations of the
  remaining members against it.\<close>

lemma groupOrderLoop_running:
  "groupOrderLoop members (g_order l) (Some l) = Inr (orderViolations ((m0, l) # matchedMembers members))"
proof (induction members arbitrary: l m0)
  case Nil
  show ?case by (simp add: matchedMembers_simps)
next
  case (Cons x members)
  obtain n g where x: "x = (n, g)" by (cases x)
  show ?case
  proof (cases g)
    case None
    with x Cons.IH [of l m0] show ?thesis by (simp add: matchedMembers_simps)
  next
    case (Some grp)
    with x Cons.IH [of grp n] show ?thesis
      by (simp add: matchedMembers_simps bindE_def Let_def)
  qed
qed

text \<open>From the initial state the first matched member is never reported, as no order
  value is below 0.\<close>

lemma groupOrderLoop_initial:
  "\<forall>(n, g) \<in> set (matchedMembers members). 0 \<le> g_order g \<Longrightarrow>
   groupOrderLoop members (- 1) None = Inr (orderViolations (matchedMembers members))"
proof (induction members)
  case Nil
  show ?case by (simp add: matchedMembers_simps)
next
  case (Cons x members)
  obtain n g where x: "x = (n, g)" by (cases x)
  show ?case
  proof (cases g)
    case None
    with x Cons show ?thesis by (simp add: matchedMembers_simps)
  next
    case (Some grp)
    with x Cons.prems have "0 \<le> g_order grp" by (simp add: matchedMembers_simps)
    then have "\<not> g_order grp < - 1" by simp
    with x Some groupOrderLoop_running [of members grp n] show ?thesis
      by (simp add: matchedMembers_simps Let_def)
  qed
qed

lemma orderViolations_none_sorted:
  "orderViolations ms = [] \<Longrightarrow> sorted (map (\<lambda>(n, g). g_order g) ms)"
  by (induction ms rule: orderViolations.induct) (auto split: if_splits)

lemma mapE_length: "mapE f xs = Inr ys \<Longrightarrow> length ys = length xs"
  by (induction xs arbitrary: ys) (auto simp: bindE_def split: sum.splits)

lemma matchedMembers_length: "length (matchedMembers ms) \<le> length ms"
proof (induction ms)
  case Nil
  show ?case by (simp add: matchedMembers_simps)
next
  case (Cons x ms)
  obtain n g where "x = (n, g)" by (cases x)
  with Cons show ?case by (cases g) (simp_all add: matchedMembers_simps)
qed

lemma orderViolations_short: "length ms \<le> 1 \<Longrightarrow> orderViolations ms = []"
  by (cases ms rule: orderViolations.cases) auto

text \<open>
  Claim C7.  With order values that are not negative (the schema's minimum is 0), the
  order check reports exactly the violations of the specification: walking the matched
  members in source order, one diagnostic at each member whose group has a smaller order
  than the group of the previous matched member, and none at any other member.  The
  listener for a class body reports the same.  The diagnostic for a member \<open>n\<close> of group
  \<open>g\<close> after a matched member of group \<open>prev\<close> is anchored at \<open>n\<close>, has the message
  \<^verbatim>\<open>wrongGroupOrder\<close>, names \<open>prev\<close> with its order as the expected group and \<open>g\<close> with its
  order as the actual group, and carries no fix.  When nothing is reported, the order
  values of the matched members are sorted: for every matched \<open>x\<close> before \<open>y\<close> the order of
  \<open>x\<close>'s group is at most that of \<open>y\<close>'s.
\<close>

theorem group_order_monotone:
  assumes "\<forall>(n, g) \<in> set (matchedMembers members). 0 \<le> g_order g"
  shows "checkGroupOrder members = Inr (orderViolations (matchedMembers members)) \<and>
         (classMembers groups body = Inr members \<longrightarrow>
            classBodyOrderCheck groups body = Inr (orderViolations (matchedMembers members))) \<and>
         (checkGroupOrder members = Inr [] \<longrightarrow>
            sorted (map (\<lambda>(n, g). g_order g) (matchedMembers members))) \<and>
         orderViolations ((x, gx) # (y, gy) # rest) =
           (if g_order gy < g_order gx then [orderReport y gx gy] else [])
           @ orderViolations ((y, gy) # rest) \<and>
         orderViolations [(x, gx)] = [] \<and>
         d_node (orderReport m prev g) = node.truncate m \<and>
         messageId (orderReport m prev g) = ''wrongGroupOrder'' \<and>
         d_data (orderReport m prev g) =
           [(''member'', Str (getMemberName m)),
            (''expectedGroup'', Str (g_name prev)),
            (''expectedGroupOrder'', Num (g_order prev)),
            (''actualGroup'', Str (g_name g)),
            (''actualGroupOrder'', Num (g_order g))] \<and>
         d_fix (orderReport m prev g) = None"
proof -
  have c: "checkGroupOrder members = Inr (orderViolations (matchedMembers members))"
    using assms groupOrderLoop_initial [of members] by (simp add: checkGroupOrder_def)
  have b: "classBodyOrderCheck groups body = Inr (orderViolations (matchedMembers members))"
    if m: "classMembers groups body = Inr members"
  proof (cases "length body \<le> 1")
    case True
    from m have "length members = length body" unfolding classMembers_def by (rule mapE_length)
    with True matchedMembers_length [of members] have "length (matchedMembers members) \<le> 1"
      by simp
    then have "orderViolations (matchedMembers members) = []" by (rule orderViolations_short)
    with True show ?thesis by (simp add: classBodyOrderCheck_def)
  next
    case False
    with m c show ?thesis by (simp add: classBodyOrderCheck_def bindE_def)
  qed
  have s: "sorted (map (\<lambda>(n, g). g_order g) (matchedMembers members))"
    if "checkGroupOrder members = Inr []"
    using that c orderViolations_none_sorted [of "matchedMembers members"] by simp
  have v: "orderViolations ((x, gx) # (y, gy) # rest) =
           (if g_order gy < g_order gx then [orderReport y gx gy] else [])
           @ orderViolations ((y, gy) # rest)"
    "orderViolations [(x, gx)] = []"
    by simp_all
  have r: "d_node (orderReport m prev g) = node.truncate m"
    "messageId (orderReport m prev g) = ''wrongGroupOrder''"
    "d_data (orderReport m prev g) =
           [(''member'', Str (getMemberName m)),
            (''expectedGroup'', Str (g_name prev)),
            (''expectedGroupOrder'', Num (g_order prev)),
            (''actualGroup'', Str (g_name g)),
            (''actualGroupOrder'', Num (g_order g))]"
    "d_fix (orderReport m prev g) = None"
    by (simp_all add: orderReport_def)
  from c b s v r show ?thesis by blast
qed

text \<open>An instance property followed by a static method is reported at the static method
  \<^verbatim>\<open>f\<close>, naming \<^verbatim>\<open>instance-properties\<close> (order 2) as expected and \<^verbatim>\<open>static-methods\<close> (order 1)
  as actual; the same members in the configured order are not reported.\<close>

theorem group_order_monotone_witness:
  "classMembers defaultGroups cl_body = Inr cl_members \<and>
   checkGroupOrder cl_members
     = Inr [orderReport (cl_body ! 1) (defaultGroups ! 2) (defaultGroups ! 1)] \<and>
   classBodyOrderCheck defaultGroups cl_body
     = Inr [orderReport (cl_body ! 1) (defaultGroups ! 2) (defaultGroups ! 1)] \<and>
   d_node (orderReport (cl_body ! 1) (defaultGroups ! 2) (defaultGroups ! 1))
     = nodeAt cl_text ''MethodDefinition'' 21 34 \<and>
   messageId (orderReport (cl_body ! 1) (defaultGroups ! 2) (defaultGroups ! 1))
     = ''wrongGroupOrder'' \<and>
   d_data (orderReport (cl_body ! 1) (defaultGroups ! 2) (defaultGroups ! 1))
     = [(''member'', Str ''f''),
        (''expectedGroup'', Str ''instance-properties''),
        (''expectedGroupOrder'', Num 2),
        (''actualGroup'', Str ''static-methods''),
        (''actualGroupOrder'', Num 1)] \<and>
   d_fix (orderReport (cl_body ! 1) (defaultGroups ! 2) (defaultGroups ! 1)) = None \<and>
   classMembers defaultGroups cl_ordered_body = Inr cl_ordered_members \<and>
   checkGroupOrder cl_ordered_members = Inr [] \<and>
   sorted (map (\<lambda>(n, g). g_order g) (matchedMembers cl_ordered_members))"
proof -
  have h1: "\<forall>(n, g) \<in> set (matchedMembers cl_members). 0 \<le> g_order g" by code_simp
  have h2: "\<forall>(n, g) \<in> set (matchedMembers cl_ordered_members). 0 \<le> g_order g" by code_simp
  have m1: "matchedMembers cl_members
              = [(cl_body ! 0, defaultGroups ! 2), (cl_body ! 1, defaultGroups ! 1)]"
    by code_simp
  have m2: "matchedMembers cl_ordered_members
              = [(cl_ordered_body ! 0, defaultGroups ! 1), (cl_ordered_body ! 1, defaultGroups ! 2)]"
    by code_simp
  have c: "classMembers defaultGroups cl_body = Inr cl_members"
    "classMembers defaultGroups cl_ordered_body = Inr cl_ordered_members"
    by code_simp+
  have e: "g_order (defaultGroups ! 1) = 1" "g_order (defaultGroups ! 2) = 2"
    "g_name (defaultGroups ! 1) = ''static-methods''"
    "g_name (defaultGroups ! 2) = ''instance-properties''"
    "getMemberName (cl_body ! 1) = ''f''"
    "node.truncate (cl_body ! 1) = nodeAt cl_text ''MethodDefinition'' 21 34"
    by code_simp+
  note i1 = group_order_monotone [OF h1, where groups = defaultGroups and body = cl_body
      and x = "cl_body ! 0" and gx = "defaultGroups ! 2"
      and y = "cl_body ! 1" and gy = "defaultGroups ! 1" and rest = "[]"
      and m = "cl_body ! 1" and prev = "defaultGroups ! 2" and g = "defaultGroups ! 1"]
  note i2 = group_order_monotone [OF h2, where groups = defaultGroups and body = cl_ordered_body
      and x = "cl_ordered_body ! 0" and gx = "defaultGroups ! 1"
      and y = "cl_ordered_body ! 1" and gy = "defaultGroups ! 2" and rest = "[]"]
  from i1 m1 e c(1)
  have r1: "checkGroupOrder cl_members
     = Inr [orderReport (cl_body ! 1) (defaultGroups ! 2) (defaultGroups ! 1)]"
    "classBodyOrderCheck defaultGroups cl_body
     = Inr [orderReport (cl_body ! 1) (defaultGroups ! 2) (defaultGroups ! 1)]" by simp_all
  from i1 e
  have d1: "d_node (orderReport (cl_body ! 1) (defaultGroups ! 2) (defaultGroups ! 1))
     = nodeAt cl_text ''MethodDefinition'' 21 34"
    "messageId (orderReport (cl_body ! 1) (defaultGroups ! 2) (defaultGroups ! 1))
     = ''wrongGroupOrder''"
    "d_data (orderReport (cl_body ! 1) (defaultGroups ! 2) (defaultGroups ! 1))
     = [(''member'', Str ''f''),
        (''expectedGroup'', Str ''instance-properties''),
        (''expectedGroupOrder'', Num 2),
        (''actualGroup'', Str ''static-methods''),
        (''actualGroupOrder'', Num 1)]"
    "d_fix (orderReport (cl_body ! 1) (defaultGroups ! 2) (defaultGroups ! 1)) = None"
    by simp_all
  from i2 m2 e
  have r2: "checkGroupOrder cl_ordered_members = Inr []"
    "sorted (map (\<lambda>(n, g). g_order g) (matchedMembers cl_ordered_members))" by simp_all
  from c r1 d1 r2 show ?thesis by simp
qed

section \<open>The trailing-separator fix\<close>

text \<open>A multiline literal has both brackets, so the threshold decision does not throw;
  the rule goes on to the checks of a multiline literal.\<close>

lemma multiline_has_brackets:
  assumes "isMultiline sc n = Inr m"
  shows "\<exists>w. shouldBeMultiline opts sc n k = Inr w"
  using assms
  by (auto simp: isMultiline_def shouldBeMultiline_def wouldExceedMaxLineLength_def
        bindE_def Let_def split: sum.splits)

lemma process_object_multiline:
  assumes "properties obj \<noteq> []" "isMultiline sc obj = Inr True"
  shows "processObjectExpression opts sc obj = objectMultilineChecks opts sc obj"
proof -
  from multiline_has_brackets [OF assms(2)] obtain w
    where "shouldBeMultiline opts sc obj (length (properties obj)) = Inr w" by blast
  with assms show ?thesis by (simp add: processObjectExpression_def bindE_def)
qed

text \<open>When the indentation check and the newline check pass, the trailing-separator
  check decides.\<close>

lemma object_checks_reach_trailing_comma:
  assumes "getExpectedIndentation opts sc obj = Inr e"
    "mapE (wrongIndent sc obj e) (properties obj) = Inr ws" "\<not> list_ex id ws"
    "allElementsOnSeparateLines opts sc obj (properties obj) = Inr sep"
    "sep \<or> multilineStyle opts \<noteq> Always"
    "trailingCommaReport opts sc obj (last (properties obj)) = Some d"
  shows "objectMultilineChecks opts sc obj = Inr [d]"
  using assms by (auto simp: objectMultilineChecks_def bindE_def)

text \<open>
  Claim C8, as amended.  For a multiline record literal that passes the indentation
  check and, under the style \<^verbatim>\<open>always\<close>, the one-item-per-line check: when
  \<^verbatim>\<open>trailingComma\<close> is \<^verbatim>\<open>always\<close> and the token after the last item is not a separator,
  the single diagnostic \<^verbatim>\<open>missingTrailingComma\<close> is reported and its fix inserts one
  separator right after the last item, every other character of the text unchanged;
  when \<^verbatim>\<open>trailingComma\<close> is \<^verbatim>\<open>never\<close> and a separator directly follows the last item,
  the single diagnostic \<^verbatim>\<open>unexpectedTrailingComma\<close> is reported and its fix removes
  exactly that separator.
\<close>

theorem trailing_separator_fix_minimal:
  assumes "properties obj \<noteq> []" "isMultiline sc obj = Inr True"
    "getExpectedIndentation opts sc obj = Inr e"
    "mapE (wrongIndent sc obj e) (properties obj) = Inr ws" "\<not> list_ex id ws"
    "allElementsOnSeparateLines opts sc obj (properties obj) = Inr sep"
    "sep \<or> multilineStyle opts \<noteq> Always"
    "getTokenAfter sc (last (properties obj)) False anyToken = Some t"
  shows "(trailingComma opts = CommaAlways \<and> tvalue t \<noteq> '','' \<longrightarrow>
            (\<exists>d f. processObjectExpression opts sc obj = Inr [d] \<and>
                   messageId d = ''missingTrailingComma'' \<and> d_fix d = Some (Inr f) \<and>
                   applyFix src f = take (snd (nrange (last (properties obj)))) src @ '',''
                                    @ drop (snd (nrange (last (properties obj)))) src)) \<and>
         (trailingComma opts = CommaNever \<and> tvalue t = '','' \<and>
          nrange t = (snd (nrange (last (properties obj))), Suc (snd (nrange (last (properties obj)))))
            \<longrightarrow>
            (\<exists>d f. processObjectExpression opts sc obj = Inr [d] \<and>
                   messageId d = ''unexpectedTrailingComma'' \<and> d_fix d = Some (Inr f) \<and>
                   applyFix src f = take (snd (nrange (last (properties obj)))) src
                                    @ drop (Suc (snd (nrange (last (properties obj))))) src))"
proof (intro conjI impI)
  assume a: "trailingComma opts = CommaAlways \<and> tvalue t \<noteq> '',''"
  define d where "d = simpleReport obj ''missingTrailingComma'' []
                    (Some (Inr (insertTextAfter (last (properties obj)) '','')))"
  from a assms(8) have "trailingCommaReport opts sc obj (last (properties obj)) = Some d"
    by (simp add: trailingCommaReport_def d_def)
  from object_checks_reach_trailing_comma [OF assms(3-7) this]
  have "processObjectExpression opts sc obj = Inr [d]"
    by (simp add: process_object_multiline [OF assms(1,2)])
  moreover have "messageId d = ''missingTrailingComma''" by (simp add: d_def simpleReport_def)
  moreover have "d_fix d = Some (Inr (insertTextAfter (last (properties obj)) '',''))"
    by (simp add: d_def simpleReport_def)
  moreover have "applyFix src (insertTextAfter (last (properties obj)) '','')
        = take (snd (nrange (last (properties obj)))) src @ '',''
          @ drop (snd (nrange (last (properties obj)))) src"
    by (simp add: applyFix_def insertTextAfter_def replaceTextRange_def)
  ultimately show "\<exists>d f. processObjectExpression opts sc obj = Inr [d] \<and>
                   messageId d = ''missingTrailingComma'' \<and> d_fix d = Some (Inr f) \<and>
                   applyFix src f = take (snd (nrange (last (properties obj)))) src @ '',''
                                    @ drop (snd (nrange (last (properties obj)))) src"
    by blast
next
  assume a: "trailingComma opts = CommaNever \<and> tvalue t = '','' \<and>
          nrange t = (snd (nrange (last (properties obj))), Suc (snd (nrange (last (properties obj)))))"
  define d where "d = simpleReport obj ''unexpectedTrailingComma'' []
                    (Some (Inr (removeRange (snd (nrange (last (properties obj))), snd (nrange t)))))"
  from a assms(8) have "trailingCommaReport opts sc obj (last (properties obj)) = Some d"
    by (simp add: trailingCommaReport_def d_def)
  from object_checks_reach_trailing_comma [OF assms(3-7) this]
  have "processObjectExpression opts sc obj = Inr [d]"
    by (simp add: process_object_multiline [OF assms(1,2)])
  moreover have "messageId d = ''unexpectedTrailingComma''" by (simp add: d_def simpleReport_def)
  moreover have "d_fix d = Some (Inr (removeRange (snd (nrange (last (properties obj))), snd (nrange t))))"
    by (simp add: d_def simpleReport_def)
  moreover have "applyFix src (removeRange (snd (nrange (last (properties obj))), snd (nrange t)))
        = take (snd (nrange (last (properties obj)))) src
          @ drop (Suc (snd (nrange (last (properties obj))))) src"
    using a by (simp add: applyFix_def removeRange_def replaceTextRange_def)
  ultimately show "\<exists>d f. processObjectExpression opts sc obj = Inr [d] \<and>
                   messageId d = ''unexpectedTrailingComma'' \<and> d_fix d = Some (Inr f) \<and>
                   applyFix src f = take (snd (nrange (last (properties obj)))) src
                                    @ drop (Suc (snd (nrange (last (properties obj))))) src"
    by blast
qed

text \<open>A record literal over three lines without the trailing separator, and the same
  literal with it: the fix of each yields the text of the other.\<close>

theorem trailing_separator_fix_minimal_witness:
  "trailingComma mf_defaults = CommaAlways \<and>
   (\<exists>d f. processObjectExpression mf_defaults obj_missing_source obj_missing = Inr [d] \<and>
          messageId d = ''missingTrailingComma'' \<and> d_fix d = Some (Inr f) \<and>
          applyFix obj_missing_text f = obj_comma_text) \<and>
   (\<exists>d f. processObjectExpression (mf_defaults\<lparr>trailingComma := CommaNever\<rparr>)
            obj_comma_source obj_comma = Inr [d] \<and>
          messageId d = ''unexpectedTrailingComma'' \<and> d_fix d = Some (Inr f) \<and>
          applyFix obj_comma_text f = obj_missing_text)"
proof -
  have m: "properties obj_missing \<noteq> []"
    "isMultiline obj_missing_source obj_missing = Inr True"
    "getExpectedIndentation mf_defaults obj_missing_source obj_missing = Inr 6"
    "mapE (wrongIndent obj_missing_source obj_missing 6) (properties obj_missing) = Inr [False]"
    "\<not> list_ex id [False]"
    "allElementsOnSeparateLines mf_defaults obj_missing_source obj_missing (properties obj_missing)
       = Inr True"
    "getTokenAfter obj_missing_source (last (properties obj_missing)) False anyToken
       = Some (punct obj_missing_text 21)"
    "trailingComma mf_defaults = CommaAlways"
    "tvalue (punct obj_missing_text 21) \<noteq> '',''"
    "take (snd (nrange (last (properties obj_missing)))) obj_missing_text @ '',''
       @ drop (snd (nrange (last (properties obj_missing)))) obj_missing_text = obj_comma_text"
    by code_simp+
  have c: "properties obj_comma \<noteq> []"
    "isMultiline obj_comma_source obj_comma = Inr True"
    "getExpectedIndentation (mf_defaults\<lparr>trailingComma := CommaNever\<rparr>) obj_comma_source obj_comma
       = Inr 6"
    "mapE (wrongIndent obj_comma_source obj_comma 6) (properties obj_comma) = Inr [False]"
    "allElementsOnSeparateLines (mf_defaults\<lparr>trailingComma := CommaNever\<rparr>) obj_comma_source
       obj_comma (properties obj_comma) = Inr True"
    "getTokenAfter obj_comma_source (last (properties obj_comma)) False anyToken
       = Some (punct obj_comma_text 16)"
    "trailingComma (mf_defaults\<lparr>trailingComma := CommaNever\<rparr>) = CommaNever"
    "tvalue (punct obj_comma_text 16) = '',''"
    "nrange (punct obj_comma_text 16)
       = (snd (nrange (last (properties obj_comma))), Suc (snd (nrange (last (properties obj_comma)))))"
    "take (snd (nrange (last (properties obj_comma)))) obj_comma_text
       @ drop (Suc (snd (nrange (last (properties obj_comma))))) obj_comma_text = obj_missing_text"
    by code_simp+
  have r1: "\<exists>d f. processObjectExpression mf_defaults obj_missing_source obj_missing = Inr [d] \<and>
          messageId d = ''missingTrailingComma'' \<and> d_fix d = Some (Inr f) \<and>
          applyFix obj_missing_text f = obj_comma_text"
    using trailing_separator_fix_minimal [where opts = mf_defaults and sc = obj_missing_source
        and obj = obj_missing and src = obj_missing_text, OF m(1,2,3,4,5,6) _ m(7), THEN conjunct1]
      m(8,9,10)
    by simp
  have r2: "\<exists>d f. processObjectExpression (mf_defaults\<lparr>trailingComma := CommaNever\<rparr>)
            obj_comma_source obj_comma = Inr [d] \<and>
          messageId d = ''unexpectedTrailingComma'' \<and> d_fix d = Some (Inr f) \<and>
          applyFix obj_comma_text f = obj_missing_text"
    using trailing_separator_fix_minimal [where opts = "mf_defaults\<lparr>trailingComma := CommaNever\<rparr>"
        and sc = obj_comma_source and obj = obj_comma and src = obj_comma_text,
        OF c(1,2,3,4) m(5) c(5) _ c(6), THEN conjunct2]
      c(7,8,9,10)
    by simp
  from m(8) r1 r2 show ?thesis by blast
qed

text \<open>
  The claim as stated fails in two places.  A multiline record literal whose last item
  has no separator, but whose item is not at the bracket's column plus the indentation,
  gets the diagnostic \<^verbatim>\<open>inconsistentIndentation\<close> and not \<^verbatim>\<open>missingTrailingComma\<close>.
  Under \<^verbatim>\<open>never\<close>, when a space stands between the last item and the separator, the fix
  removes the space together with the separator.
\<close>

theorem trailing_separator_fix_counterexample:
  "isMultiline obj_indent_source obj_indent = Inr True \<and>
   trailingComma mf_defaults = CommaAlways \<and>
   getTokenAfter obj_indent_source (last (properties obj_indent)) False anyToken
     = Some (punct obj_indent_text 13) \<and>
   tvalue (punct obj_indent_text 13) = ''}'' \<and>
   (case processObjectExpression mf_defaults obj_indent_source obj_indent of
      Inr [d] \<Rightarrow> messageId d = ''inconsistentIndentation''
    | _ \<Rightarrow> False) \<and>
   isMultiline obj_gap_source obj_gap = Inr True \<and>
   (case processObjectExpression (mf_defaults\<lparr>trailingComma := CommaNever\<rparr>)
           obj_gap_source obj_gap of
      Inr [d] \<Rightarrow>
        messageId d = ''unexpectedTrailingComma'' \<and>
        d_fix d = Some (Inr \<lparr>fix_range = (16, 18), fix_text = []\<rparr>)
    | _ \<Rightarrow> False) \<and>
   slice obj_gap_text 16 18 = '' ,''"
  by code_simp

section \<open>Statement spacing at the boundaries of a file\<close>

text \<open>
  Claim C9.  When a node has no preceding token (comments included) the before check
  reports nothing, and when it has no following token the after check reports nothing;
  a node with neither gets no diagnostic from the rule.  Both checks are total functions
  without an error result, so nothing is thrown either.
\<close>

theorem missing_neighbor_skipped:
  "(getTokenBefore sc n True anyToken = None \<longrightarrow> checkLinesBefore opts sc n required nodeType = []) \<and>
   (getTokenAfter sc n True anyToken = None \<longrightarrow> checkLinesAfter opts sc n required nodeType = []) \<and>
   (getTokenBefore sc n True anyToken = None \<and> getTokenAfter sc n True anyToken = None \<longrightarrow>
      cls_visit opts sc n = [])"
  by (simp add: checkLinesBefore_def checkLinesAfter_def cls_visit_def Let_def)

text \<open>The only function of a file has no token before or after it.\<close>

theorem missing_neighbor_skipped_witness:
  "getTokenBefore one_source one_function True anyToken = None \<and>
   getTokenAfter one_source one_function True anyToken = None \<and>
   checkLinesBefore cls_defaults one_source one_function 2 ''function declaration'' = [] \<and>
   checkLinesAfter cls_defaults one_source one_function 2 ''function declaration'' = [] \<and>
   cls_visit cls_defaults one_source one_function = []"
proof -
  have b: "getTokenBefore one_source one_function True anyToken = None" by code_simp
  have a: "getTokenAfter one_source one_function True anyToken = None" by code_simp
  show ?thesis
    using a b missing_neighbor_skipped [of one_source one_function cls_defaults 2 "''function declaration''"]
    by simp
qed

section \<open>Empty literals\<close>

text \<open>
  Claim C10.  For a record literal without properties and for a sequence literal
  without elements the collection-formatting rule returns no diagnostic, hence no fix,
  and does not throw, whatever the options and the source are.
\<close>

theorem empty_literal_exempt:
  "(properties n = [] \<longrightarrow> processObjectExpression opts sc n = Inr []) \<and>
   (elements a = [] \<longrightarrow> processArrayExpression opts sc a = Inr [])"
  by (simp add: processObjectExpression_def processArrayExpression_def)

text \<open>Empty literals under the style \<^verbatim>\<open>always\<close>, starting beyond the length limit.\<close>

theorem empty_literal_exempt_witness:
  "properties empty_object = [] \<and> elements empty_array = [] \<and>
   multilineStyle always_opts = Always \<and>
   wouldExceedMaxLineLength always_opts empty_object_source empty_object = Inr True \<and>
   wouldExceedMaxLineLength always_opts empty_source empty_array = Inr True \<and>
   processObjectExpression always_opts empty_object_source empty_object = Inr [] \<and>
   processArrayExpression always_opts empty_source empty_array = Inr []"
proof -
  have e: "properties empty_object = []" "elements empty_array = []"
    "multilineStyle always_opts = Always"
    "wouldExceedMaxLineLength always_opts empty_object_source empty_object = Inr True"
    "wouldExceedMaxLineLength always_opts empty_source empty_array = Inr True"
    by code_simp+
  from e(1,2) empty_literal_exempt [where n = empty_object and opts = always_opts
      and sc = empty_object_source and a = empty_array]
    empty_literal_exempt [where n = empty_object and opts = always_opts
      and sc = empty_source and a = empty_array]
  have "processObjectExpression always_opts empty_object_source empty_object = Inr []"
    "processArrayExpression always_opts empty_source empty_array = Inr []"
    by simp_all
  with e show ?thesis by simp
qed

end
